theory Spec2Isabelle
  imports Complex_Main "HOL-Library.Sublist"
begin

section \<open>Python values and the built-ins the engines call\<close>

text \<open>
  The engines work on JSON data loaded with \<^verbatim>\<open>json.load\<close> and on dictionaries built from
  it. A value is one of Python's \<^verbatim>\<open>None\<close>, \<^verbatim>\<open>bool\<close>, \<^verbatim>\<open>int\<close>, \<^verbatim>\<open>float\<close>, \<^verbatim>\<open>str\<close>, \<^verbatim>\<open>list\<close> or a
  \<^verbatim>\<open>dict\<close> with string keys (a JSON object; the association list holds each key once, in
  insertion order). Floats are idealised as reals: no rounding, no infinities, no NaN.
  Strings are byte strings; case folding and white space follow the ASCII range.
\<close>

datatype pyval =
    PNone
  | PBool bool
  | PInt int
  | PFloat real
  | PStr string
  | PList "pyval list"
  | PDict "(string \<times> pyval) list"

type_synonym jobj = "(string \<times> pyval) list"

text \<open>Exceptions are values: a function that can raise returns \<open>pyerr + 'a\<close>.\<close>

datatype pyerr = KeyError | ValueError | TypeError | AttributeError | IndexError

datatype pydatetime = Naive real | Aware real

text \<open>
  Five built-ins of the interpreter are not code of the repository and have no finite
  description worth fixing here; they are parameters of the model, so every theorem holds
  for each behaviour they may have:
  \<^item> \<open>float_of_str s\<close>: \<^verbatim>\<open>float(s)\<close> on a string, \<open>None\<close> when it raises \<^verbatim>\<open>ValueError\<close>;
  \<^item> \<open>repr_val v\<close>: \<^verbatim>\<open>str(v)\<close> for a float, a list or a dict;
  \<^item> \<open>fromisoformat s\<close>: \<^verbatim>\<open>datetime.fromisoformat(s)\<close>, \<open>None\<close> when it raises; the result
    is naive or timezone-aware and carries its position on the time line in seconds;
  \<^item> \<open>strftime d\<close>: \<^verbatim>\<open>d.strftime("%b %d, %I:%M %p")\<close>;
  \<^item> \<open>complex_format t kw\<close>: \<^verbatim>\<open>t.format(**kw)\<close> for a text \<open>t\<close> that starts with a replacement
    field using attribute or index access, a conversion or a format specification
    (one of the characters \<^verbatim>\<open>. [ ! :\<close> inside the braces).
\<close>

record pylib =
  float_of_str :: "string \<Rightarrow> real option"
  repr_val :: "pyval \<Rightarrow> string"
  fromisoformat :: "string \<Rightarrow> pydatetime option"
  strftime :: "pydatetime \<Rightarrow> string"
  complex_format :: "string \<Rightarrow> (string \<times> pyval) list \<Rightarrow> pyerr + string"

subsection \<open>Strings\<close>

definition ord :: "char \<Rightarrow> nat" where
  "ord c = of_char c"

definition lower_char :: "char \<Rightarrow> char" where
  "lower_char c = (if 65 \<le> ord c \<and> ord c \<le> 90 then char_of (ord c + 32) else c)"

definition py_lower :: "string \<Rightarrow> string" where
  "py_lower s = map lower_char s"

text \<open>\<^verbatim>\<open>sub in s\<close> on strings.\<close>

fun py_in :: "string \<Rightarrow> string \<Rightarrow> bool" where
  "py_in sub [] = (sub = [])"
| "py_in sub (c # cs) = (take (length sub) (c # cs) = sub \<or> py_in sub cs)"

text \<open>\<^verbatim>\<open>str(n)\<close> for an integer: decimal digits, a minus sign for a negative number.\<close>

definition digit_char :: "nat \<Rightarrow> char" where
  "digit_char d = char_of (48 + d)"

fun str_nat :: "nat \<Rightarrow> string" where
  "str_nat n = (if n < 10 then [digit_char n] else str_nat (n div 10) @ [digit_char (n mod 10)])"

declare str_nat.simps [simp del]

definition str_int :: "int \<Rightarrow> string" where
  "str_int i = (if i < 0 then CHR ''-'' # str_nat (nat (- i)) else str_nat (nat i))"

text \<open>\<^verbatim>\<open>str(v)\<close>.\<close>

definition py_str :: "pylib \<Rightarrow> pyval \<Rightarrow> string" where
  "py_str L v =
     (case v of
        PNone \<Rightarrow> ''None''
      | PBool b \<Rightarrow> (if b then ''True'' else ''False'')
      | PInt i \<Rightarrow> str_int i
      | PStr s \<Rightarrow> s
      | _ \<Rightarrow> repr_val L v)"

text \<open>\<^verbatim>\<open>float(v)\<close>: \<^verbatim>\<open>ValueError\<close> on a string that is no number, \<^verbatim>\<open>TypeError\<close> on \<^verbatim>\<open>None\<close>, a
  list or a dict. A \<^verbatim>\<open>bool\<close> is an \<^verbatim>\<open>int\<close>.\<close>

definition py_float :: "pylib \<Rightarrow> pyval \<Rightarrow> pyerr + real" where
  "py_float L v =
     (case v of
        PNone \<Rightarrow> Inl TypeError
      | PBool b \<Rightarrow> Inr (if b then 1 else 0)
      | PInt i \<Rightarrow> Inr (of_int i)
      | PFloat r \<Rightarrow> Inr r
      | PStr s \<Rightarrow> (case float_of_str L s of None \<Rightarrow> Inl ValueError | Some r \<Rightarrow> Inr r)
      | PList _ \<Rightarrow> Inl TypeError
      | PDict _ \<Rightarrow> Inl TypeError)"

text \<open>Truth value of an object in a condition (\<^verbatim>\<open>if v:\<close>, \<^verbatim>\<open>not v\<close>, \<^verbatim>\<open>v or w\<close>).\<close>

definition truthy :: "pyval \<Rightarrow> bool" where
  "truthy v =
     (case v of
        PNone \<Rightarrow> False
      | PBool b \<Rightarrow> b
      | PInt i \<Rightarrow> i \<noteq> 0
      | PFloat r \<Rightarrow> r \<noteq> 0
      | PStr s \<Rightarrow> s \<noteq> []
      | PList xs \<Rightarrow> xs \<noteq> []
      | PDict kvs \<Rightarrow> kvs \<noteq> [])"

text \<open>\<^verbatim>\<open>d.get(k)\<close> and \<^verbatim>\<open>d.get(k, default)\<close> on a dictionary with string keys; a missing key
  and a key bound to \<^verbatim>\<open>None\<close> both read as \<open>PNone\<close> with \<open>dict_get\<close>.\<close>

definition dict_get :: "jobj \<Rightarrow> string \<Rightarrow> pyval" where
  "dict_get d k = (case map_of d k of None \<Rightarrow> PNone | Some v \<Rightarrow> v)"

definition dict_get_default :: "jobj \<Rightarrow> string \<Rightarrow> pyval \<Rightarrow> pyval" where
  "dict_get_default d k dflt = (case map_of d k of None \<Rightarrow> dflt | Some v \<Rightarrow> v)"

text \<open>\<^verbatim>\<open>s.replace(old, new)\<close>: every occurrence, left to right, without overlap.\<close>

fun py_replace :: "string \<Rightarrow> string \<Rightarrow> string \<Rightarrow> string" where
  "py_replace old new [] = (if old = [] then new else [])"
| "py_replace old new (c # cs) =
     (if old = [] then new @ c # py_replace old new cs
      else if take (length old) (c # cs) = old
      then new @ py_replace old new (drop (length old) (c # cs))
      else c # py_replace old new cs)"

text \<open>White space in the ASCII range, for \<^verbatim>\<open>str.strip()\<close> and for \<^verbatim>\<open>\s\<close>: tab, line feed,
  vertical tab, form feed, carriage return, the four separators 28 to 31, and the space.\<close>

definition is_space :: "char \<Rightarrow> bool" where
  "is_space c = ((9 \<le> ord c \<and> ord c \<le> 13) \<or> (28 \<le> ord c \<and> ord c \<le> 32))"

definition is_digit :: "char \<Rightarrow> bool" where
  "is_digit c = (48 \<le> ord c \<and> ord c \<le> 57)"

definition py_strip :: "string \<Rightarrow> string" where
  "py_strip s = rev (dropWhile is_space (rev (dropWhile is_space s)))"

text \<open>\<^verbatim>\<open>int(s)\<close> on a string of decimal digits (the only strings the parser passes).\<close>

definition int_of_digits :: "string \<Rightarrow> int" where
  "int_of_digits s = int (foldl (\<lambda>n c. 10 * n + (ord c - 48)) 0 s)"

subsection \<open>Regular expressions of the \<^verbatim>\<open>re\<close> module\<close>

text \<open>
  The patterns of the parser use literals, the classes \<^verbatim>\<open>.\<close>, \<^verbatim>\<open>\s\<close>, \<^verbatim>\<open>\d\<close>, bracket sets,
  concatenation, alternation, \<^verbatim>\<open>?\<close>, greedy \<^verbatim>\<open>+\<close>, lazy \<^verbatim>\<open>+?\<close> and capturing groups. The
  matcher is the backtracking one of \<^verbatim>\<open>re\<close>: for a pattern and a state (the rest of the text
  and the groups captured so far) it lists every way to match, in the order backtracking
  tries them. \<^verbatim>\<open>re.search\<close> takes the first way at the leftmost position that has one.
\<close>

datatype cclass = CAny | CSpace | CDigit | COneOf "char list" | CNoneOf "char list"

fun in_class :: "cclass \<Rightarrow> char \<Rightarrow> bool" where
  "in_class CAny c = (ord c \<noteq> 10)"
| "in_class CSpace c = is_space c"
| "in_class CDigit c = is_digit c"
| "in_class (COneOf cs) c = (c \<in> set cs)"
| "in_class (CNoneOf cs) c = (c \<notin> set cs)"

datatype regex =
    Eps
  | Atom cclass
  | Str string
  | Seq regex regex
  | Alt regex regex
  | Opt regex
  | Plus regex
  | PlusLazy regex
  | Group nat regex

type_synonym rstate = "string \<times> (nat \<times> string) list"

text \<open>One or more rounds of \<open>f\<close>. Each round of the patterns below consumes a character, so
  the length of the text bounds the number of rounds.\<close>

fun iter_greedy :: "(rstate \<Rightarrow> rstate list) \<Rightarrow> nat \<Rightarrow> rstate \<Rightarrow> rstate list" where
  "iter_greedy f 0 st = []"
| "iter_greedy f (Suc n) st = concat (map (\<lambda>st'. iter_greedy f n st' @ [st']) (f st))"

fun iter_lazy :: "(rstate \<Rightarrow> rstate list) \<Rightarrow> nat \<Rightarrow> rstate \<Rightarrow> rstate list" where
  "iter_lazy f 0 st = []"
| "iter_lazy f (Suc n) st = concat (map (\<lambda>st'. st' # iter_lazy f n st') (f st))"

primrec rmatch :: "regex \<Rightarrow> rstate \<Rightarrow> rstate list" where
  "rmatch Eps st = [st]"
| "rmatch (Atom k) st =
     (case fst st of [] \<Rightarrow> [] | x # xs \<Rightarrow> if in_class k x then [(xs, snd st)] else [])"
| "rmatch (Str w) st =
     (if take (length w) (fst st) = w then [(drop (length w) (fst st), snd st)] else [])"
| "rmatch (Seq a b) st = concat (map (rmatch b) (rmatch a st))"
| "rmatch (Alt a b) st = rmatch a st @ rmatch b st"
| "rmatch (Opt a) st = rmatch a st @ [st]"
| "rmatch (Plus a) st = iter_greedy (rmatch a) (Suc (length (fst st))) st"
| "rmatch (PlusLazy a) st = iter_lazy (rmatch a) (Suc (length (fst st))) st"
| "rmatch (Group n a) st =
     map (\<lambda>st'. (fst st', (n, take (length (fst st) - length (fst st')) (fst st)) # snd st'))
         (rmatch a st)"

fun cat :: "regex list \<Rightarrow> regex" where
  "cat [] = Eps"
| "cat (r # rs) = Seq r (cat rs)"

text \<open>\<^verbatim>\<open>re.search(pattern, text)\<close>: the groups of the match, or \<open>None\<close>.\<close>

fun re_search :: "regex \<Rightarrow> string \<Rightarrow> (nat \<times> string) list option" where
  "re_search r [] = (case rmatch r ([], []) of [] \<Rightarrow> None | st # _ \<Rightarrow> Some (snd st))"
| "re_search r (c # cs) =
     (case rmatch r (c # cs, []) of [] \<Rightarrow> re_search r cs | st # _ \<Rightarrow> Some (snd st))"

text \<open>\<^verbatim>\<open>match.group(n)\<close> of a group that took part in the match.\<close>

definition group :: "(nat \<times> string) list \<Rightarrow> nat \<Rightarrow> string" where
  "group caps n = (case map_of caps n of None \<Rightarrow> [] | Some g \<Rightarrow> g)"

section \<open>LLM\_Rules\_Engine.py: the data classes\<close>

datatype ConditionType =
  RISK_LEVEL | TIME_BASED | STATUS | LANGUAGE | APPOINTMENT_TYPE | LOCATION | PRACTICE

datatype ActionType = SMS | EMAIL | CALL

record ParsedCondition =
  ctype :: ConditionType
  field :: string
  operator :: string
  cvalue :: pyval
  confidence :: real

record ParsedAction =
  atype :: ActionType
  template :: "string + (string \<times> string)"
  custom_message :: "string option"
  subject :: "string option"

text \<open>
  \<open>template\<close> is a string, or for an email the dictionary
  \<^verbatim>\<open>{'subject': subject, 'body': template}\<close>, kept as the pair (subject, body).
  \<open>RuleMatch\<close> and the dictionary \<^verbatim>\<open>semantic_parse\<close> returns both have a \<^verbatim>\<open>confidence\<close>; the
  fields are \<open>match_confidence\<close> and \<open>rule_confidence\<close> here.
\<close>

record RuleMatch =
  appointment_id :: string
  patient_id :: pyval
  match_confidence :: real
  triggered_actions :: "jobj list"

record parsed_rule =
  conditions :: "ParsedCondition list"
  actions :: "ParsedAction list"
  original_text :: string
  rule_confidence :: real

section \<open>SemanticRuleParser\<close>

definition nl :: string where
  "nl = [CHR 0x0A]"

definition quotes :: "char list" where
  "quotes = [CHR 0x22, CHR 0x27]"

text \<open>\<^verbatim>\<open>s.title()\<close>: a letter after a non-letter in upper case, every other letter in lower
  case.\<close>

definition is_alpha :: "char \<Rightarrow> bool" where
  "is_alpha c = ((65 \<le> ord c \<and> ord c \<le> 90) \<or> (97 \<le> ord c \<and> ord c \<le> 122))"

definition upper_char :: "char \<Rightarrow> char" where
  "upper_char c = (if 97 \<le> ord c \<and> ord c \<le> 122 then char_of (ord c - 32) else c)"

fun title_from :: "bool \<Rightarrow> string \<Rightarrow> string" where
  "title_from prev [] = []"
| "title_from prev (c # cs) =
     (if prev then lower_char c else upper_char c) # title_from (is_alpha c) cs"

definition py_title :: "string \<Rightarrow> string" where
  "py_title s = title_from False s"

subsection \<open>\_parse\_conditions\_semantic\<close>

text \<open>
  \<^verbatim>\<open>
  if any(word in text for word in ['risk', 'likelihood']):
      for level in ['high', 'medium', 'low']:
          if level in text:
              confidence = 0.9 if f'risk is {level}' in text else 0.7
              conditions.append(ParsedCondition(ConditionType.RISK_LEVEL, 'no_show_risk',
                                                'equals', level, confidence))
  \<close>
\<close>

definition risk_conditions :: "string \<Rightarrow> ParsedCondition list" where
  "risk_conditions text =
     (if py_in ''risk'' text \<or> py_in ''likelihood'' text then
        concat (map (\<lambda>level.
          if py_in level text then
            [\<lparr> ctype = RISK_LEVEL, field = ''no_show_risk'', operator = ''equals'',
               cvalue = PStr level,
               confidence = (if py_in (''risk is '' @ level) text then 0.9 else 0.7) \<rparr>]
          else []) [''high'', ''medium'', ''low''])
      else [])"

text \<open>
  \<^verbatim>\<open>
  time_patterns = [
      (r'within (\d+) hours?', 'within'),
      (r'(\d+) hours? (?:or less|before)', 'within'),
      (r'appointment (?:is )?tomorrow', 'within', 24),
      (r'appointment (?:is )?soon', 'within', 48)
  ]
  for pattern in time_patterns:
      if len(pattern) == 3:
          if re.search(pattern[0], text):
              conditions.append(ParsedCondition(ConditionType.TIME_BASED, 'hours_until',
                                                '<=', pattern[2], 0.8))
      else:
          match = re.search(pattern[0], text)
          if match:
              hours = int(match.group(1))
              conditions.append(ParsedCondition(ConditionType.TIME_BASED, 'hours_until',
                                                '<=', hours, 0.9))
  \<close>
  A pattern is paired with its fixed number of hours when the tuple has three components.
\<close>

definition time_patterns :: "(regex \<times> int option) list" where
  "time_patterns =
     [(cat [Str ''within '', Group 1 (Plus (Atom CDigit)), Str '' hour'', Opt (Str ''s'')], None),
      (cat [Group 1 (Plus (Atom CDigit)), Str '' hour'', Opt (Str ''s''), Str '' '',
            Alt (Str ''or less'') (Str ''before'')], None),
      (cat [Str ''appointment '', Opt (Str ''is ''), Str ''tomorrow''], Some 24),
      (cat [Str ''appointment '', Opt (Str ''is ''), Str ''soon''], Some 48)]"

definition time_condition :: "string \<Rightarrow> regex \<times> int option \<Rightarrow> ParsedCondition list" where
  "time_condition text pattern =
     (case snd pattern of
        Some fixed \<Rightarrow>
          (case re_search (fst pattern) text of
             None \<Rightarrow> []
           | Some caps \<Rightarrow>
               [\<lparr> ctype = TIME_BASED, field = ''hours_until'', operator = ''<='',
                  cvalue = PInt fixed, confidence = 0.8 \<rparr>])
      | None \<Rightarrow>
          (case re_search (fst pattern) text of
             None \<Rightarrow> []
           | Some caps \<Rightarrow>
               [\<lparr> ctype = TIME_BASED, field = ''hours_until'', operator = ''<='',
                  cvalue = PInt (int_of_digits (group caps 1)), confidence = 0.9 \<rparr>]))"

definition time_conditions :: "string \<Rightarrow> ParsedCondition list" where
  "time_conditions text = concat (map (time_condition text) time_patterns)"

text \<open>
  \<^verbatim>\<open>
  if 'intake' in text:
      if any(word in text for word in ['incomplete', 'missing', 'not']):
          ... 'intake_status' equals 'INCOMPLETE', 0.8
      elif 'complete' in text:
          ... 'intake_status' equals 'COMPLETE', 0.8
  if 'spanish' in text or 'es' in text:
      ... 'patient_language' equals 'es', 0.9
  elif 'english' in text or 'en' in text:
      ... 'patient_language' equals 'en', 0.9
  for apt_type in ['oncology', 'ortho', 'mri', 'ob/gyn', 'pt session']:
      if apt_type.lower() in text:
          ... 'appointment_type' contains apt_type.title(), 0.8
  \<close>
\<close>

definition intake_conditions :: "string \<Rightarrow> ParsedCondition list" where
  "intake_conditions text =
     (if py_in ''intake'' text then
        (if py_in ''incomplete'' text \<or> py_in ''missing'' text \<or> py_in ''not'' text then
           [\<lparr> ctype = STATUS, field = ''intake_status'', operator = ''equals'',
              cvalue = PStr ''INCOMPLETE'', confidence = 0.8 \<rparr>]
         else if py_in ''complete'' text then
           [\<lparr> ctype = STATUS, field = ''intake_status'', operator = ''equals'',
              cvalue = PStr ''COMPLETE'', confidence = 0.8 \<rparr>]
         else [])
      else [])"

definition language_conditions :: "string \<Rightarrow> ParsedCondition list" where
  "language_conditions text =
     (if py_in ''spanish'' text \<or> py_in ''es'' text then
        [\<lparr> ctype = LANGUAGE, field = ''patient_language'', operator = ''equals'',
           cvalue = PStr ''es'', confidence = 0.9 \<rparr>]
      else if py_in ''english'' text \<or> py_in ''en'' text then
        [\<lparr> ctype = LANGUAGE, field = ''patient_language'', operator = ''equals'',
           cvalue = PStr ''en'', confidence = 0.9 \<rparr>]
      else [])"

definition appointment_types :: "string list" where
  "appointment_types = [''oncology'', ''ortho'', ''mri'', ''ob/gyn'', ''pt session'']"

definition appointment_type_conditions :: "string \<Rightarrow> ParsedCondition list" where
  "appointment_type_conditions text =
     concat (map (\<lambda>apt_type.
       if py_in (py_lower apt_type) text then
         [\<lparr> ctype = APPOINTMENT_TYPE, field = ''appointment_type'', operator = ''contains'',
            cvalue = PStr (py_title apt_type), confidence = 0.8 \<rparr>]
       else []) appointment_types)"

definition parse_conditions_semantic :: "string \<Rightarrow> ParsedCondition list" where
  "parse_conditions_semantic text =
     risk_conditions text @ time_conditions text @ intake_conditions text
       @ language_conditions text @ appointment_type_conditions text"

subsection \<open>\_generate\_smart\_template, \_extract\_custom\_message, \_extract\_subject\<close>

datatype tone = UrgentT | SpanishT | ReminderT | DefaultT

fun base_templates :: "ActionType \<Rightarrow> tone \<Rightarrow> string" where
  "base_templates SMS UrgentT =
     ''URGENT: {patient_first_name}, please {action_needed} for your {appointment_type} appointment.''"
| "base_templates SMS ReminderT =
     ''Hi {patient_first_name}, reminder about your {appointment_type} appointment at {practice_name}.''"
| "base_templates SMS SpanishT =
     ''Hola {patient_first_name}, recordatorio sobre su cita de {appointment_type}.''"
| "base_templates SMS DefaultT =
     ''Hi {patient_first_name}, this is a reminder about your {appointment_type} appointment.''"
| "base_templates EMAIL UrgentT =
     ''Dear {patient_first_name},'' @ nl @ nl @ ''This is an urgent reminder about your {appointment_type} appointment.'' @ nl @ nl @ ''Please contact us immediately.'' @ nl @ nl @ ''Best regards,'' @ nl @ ''{practice_name}''"
| "base_templates EMAIL ReminderT =
     ''Dear {patient_first_name},'' @ nl @ nl @ ''This is a friendly reminder about your upcoming {appointment_type} appointment.'' @ nl @ nl @ ''Thank you,'' @ nl @ ''{practice_name}''"
| "base_templates EMAIL SpanishT =
     ''Estimado/a {patient_first_name},'' @ nl @ nl @ ''Este es un recordatorio sobre su cita de {appointment_type}.'' @ nl @ nl @ ''Gracias,'' @ nl @ ''{practice_name}''"
| "base_templates EMAIL DefaultT =
     ''Dear {patient_first_name},'' @ nl @ nl @ ''This is a reminder about your {appointment_type} appointment.'' @ nl @ nl @ ''Best regards,'' @ nl @ ''{practice_name}''"
| "base_templates CALL UrgentT =
     ''Hi {patient_first_name}, this is {practice_name} calling urgently about your {appointment_type} appointment.''"
| "base_templates CALL ReminderT =
     ''Hi {patient_first_name}, this is {practice_name} calling to remind you about your {appointment_type} appointment.''"
| "base_templates CALL SpanishT =
     ''Hola {patient_first_name}, le llama {practice_name} sobre su cita de {appointment_type}.''"
| "base_templates CALL DefaultT =
     ''Hi {patient_first_name}, this is {practice_name} calling about your {appointment_type} appointment.''"

text \<open>
  \<^verbatim>\<open>
  if any(word in context for word in ['urgent', 'important', 'asap']):   'urgent'
  elif any(word in context for word in ['spanish', 'espanol']):           'spanish'
  elif any(word in context for word in ['reminder', 'remind']):           'reminder'
  else:                                                                   'default'
  \<close>
  The second word of the Spanish test is spelt with n-tilde in the source, two bytes in
  UTF-8.
\<close>

definition template_type :: "string \<Rightarrow> tone" where
  "template_type context =
     (if py_in ''urgent'' context \<or> py_in ''important'' context \<or> py_in ''asap'' context
      then UrgentT
      else if py_in ''spanish'' context
              \<or> py_in (''espa'' @ [CHR 0xC3, CHR 0xB1] @ ''ol'') context
      then SpanishT
      else if py_in ''reminder'' context \<or> py_in ''remind'' context then ReminderT
      else DefaultT)"

definition generate_smart_template :: "ActionType \<Rightarrow> string \<Rightarrow> string" where
  "generate_smart_template action_type context = base_templates action_type (template_type context)"

text \<open>
  \<^verbatim>\<open>
  patterns = [r'saying ["\']([^"\']+)["\']', r'message ["\']([^"\']+)["\']',
              r'with ["\']([^"\']+)["\']']
  for pattern in patterns:
      match = re.search(pattern, text)
      if match:
          return match.group(1)
  return None
  \<close>
\<close>

definition quoted_after :: "string \<Rightarrow> regex" where
  "quoted_after word =
     cat [Str word, Atom (COneOf quotes), Group 1 (Plus (Atom (CNoneOf quotes))),
          Atom (COneOf quotes)]"

fun first_group :: "regex list \<Rightarrow> string \<Rightarrow> string option" where
  "first_group [] text = None"
| "first_group (pattern # patterns) text =
     (case re_search pattern text of
        Some caps \<Rightarrow> Some (group caps 1)
      | None \<Rightarrow> first_group patterns text)"

definition extract_custom_message :: "string \<Rightarrow> string option" where
  "extract_custom_message text =
     first_group [quoted_after ''saying '', quoted_after ''message '', quoted_after ''with ''] text"

definition extract_subject :: "string \<Rightarrow> string option" where
  "extract_subject text = first_group [quoted_after ''subject ''] text"

text \<open>\<^verbatim>\<open>x or y\<close> on an optional string: \<open>x\<close> unless it is \<^verbatim>\<open>None\<close> or empty.\<close>

definition or_else :: "string option \<Rightarrow> string \<Rightarrow> string" where
  "or_else x y = (case x of None \<Rightarrow> y | Some m \<Rightarrow> if m = [] then y else m)"

subsection \<open>\_parse\_actions\_semantic\<close>

text \<open>
  \<^verbatim>\<open>
  if any(phrase in text for phrase in ['sms', 'text', 'message']):
      custom_msg = self._extract_custom_message(text)
      template = custom_msg or self._generate_smart_template('SMS', text)
      actions.append(ParsedAction(type=ActionType.SMS, template=template,
                                  custom_message=custom_msg))
  if 'email' in text:
      custom_msg = self._extract_custom_message(text)
      subject = self._extract_subject(text) or "Appointment Reminder"
      template = custom_msg or self._generate_smart_template('EMAIL', text)
      actions.append(ParsedAction(type=ActionType.EMAIL,
                                  template={'subject': subject, 'body': template},
                                  custom_message=custom_msg, subject=subject))
  if any(phrase in text for phrase in ['call', 'phone']):
      custom_msg = self._extract_custom_message(text)
      template = custom_msg or self._generate_smart_template('CALL', text)
      actions.append(ParsedAction(type=ActionType.CALL, template=template,
                                  custom_message=custom_msg))
  return actions
  \<close>
\<close>

definition parse_actions_semantic :: "string \<Rightarrow> ParsedAction list" where
  "parse_actions_semantic text =
     (if py_in ''sms'' text \<or> py_in ''text'' text \<or> py_in ''message'' text then
        (let custom_msg = extract_custom_message text;
             tpl = or_else custom_msg (generate_smart_template SMS text)
         in [\<lparr> atype = SMS, template = Inl tpl, custom_message = custom_msg,
                subject = None \<rparr>])
      else [])
     @ (if py_in ''email'' text then
          (let custom_msg = extract_custom_message text;
               subj = or_else (extract_subject text) ''Appointment Reminder'';
               tpl = or_else custom_msg (generate_smart_template EMAIL text)
           in [\<lparr> atype = EMAIL, template = Inr (subj, tpl), custom_message = custom_msg,
                  subject = Some subj \<rparr>])
        else [])
     @ (if py_in ''call'' text \<or> py_in ''phone'' text then
          (let custom_msg = extract_custom_message text;
               tpl = or_else custom_msg (generate_smart_template CALL text)
           in [\<lparr> atype = CALL, template = Inl tpl, custom_message = custom_msg,
                  subject = None \<rparr>])
        else [])"

subsection \<open>semantic\_parse\<close>

text \<open>
  \<^verbatim>\<open>
  def semantic_parse(self, rule_text):
      rule_text = rule_text.strip().lower()
      if_then_match = re.search(r'if\s+(.+?)\s+then\s+(.+)', rule_text)
      if not if_then_match:
          return None
      conditions_text = if_then_match.group(1)
      actions_text = if_then_match.group(2)
      conditions = self._parse_conditions_semantic(conditions_text)
      actions = self._parse_actions_semantic(actions_text)
      return {'conditions': conditions, 'actions': actions, 'original_text': rule_text,
              'confidence': min([c.confidence for c in conditions]) if conditions else 0.5}
  \<close>
\<close>

definition if_then_pattern :: regex where
  "if_then_pattern =
     cat [Str ''if'', Plus (Atom CSpace), Group 1 (PlusLazy (Atom CAny)), Plus (Atom CSpace),
          Str ''then'', Plus (Atom CSpace), Group 2 (Plus (Atom CAny))]"

fun py_min :: "real list \<Rightarrow> real" where
  "py_min [] = 0"
| "py_min (x # xs) = fold min xs x"

definition semantic_parse :: "string \<Rightarrow> parsed_rule option" where
  "semantic_parse rule_text0 =
     (let rule_text = py_lower (py_strip rule_text0) in
      case re_search if_then_pattern rule_text of
        None \<Rightarrow> None
      | Some if_then_match \<Rightarrow>
          (let conditions_text = group if_then_match 1;
               actions_text = group if_then_match 2;
               conds = parse_conditions_semantic conditions_text;
               acts = parse_actions_semantic actions_text
           in Some \<lparr> conditions = conds, actions = acts, original_text = rule_text,
                     rule_confidence =
                       (if conds \<noteq> [] then py_min (map confidence conds) else 0.5) \<rparr>))"

section \<open>RuleEngine.\_evaluate\_condition\<close>

text \<open>
  \<^verbatim>\<open>
  def _evaluate_condition(self, condition, context):
      context_value = context.get(condition.field)
      if context_value is None:
          return False
      if condition.operator == 'equals':
          return str(context_value).lower() == str(condition.value).lower()
      elif condition.operator == 'contains':
          return str(condition.value).lower() in str(context_value).lower()
      elif condition.operator == '<=':
          return float(context_value) <= float(condition.value)
      elif condition.operator == '>=':
          return float(context_value) >= float(condition.value)
      return False
  \<close>
  Nothing catches what \<^verbatim>\<open>float\<close> raises; the left operand is converted first.
\<close>

definition evaluate_condition :: "pylib \<Rightarrow> ParsedCondition \<Rightarrow> jobj \<Rightarrow> pyerr + bool" where
  "evaluate_condition L condition context =
     (let context_value = dict_get context (field condition) in
      if context_value = PNone then Inr False
      else if operator condition = ''equals'' then
        Inr (py_lower (py_str L context_value) = py_lower (py_str L (cvalue condition)))
      else if operator condition = ''contains'' then
        Inr (py_in (py_lower (py_str L (cvalue condition))) (py_lower (py_str L context_value)))
      else if operator condition = ''<='' then
        (case py_float L context_value of
           Inl e \<Rightarrow> Inl e
         | Inr a \<Rightarrow> (case py_float L (cvalue condition) of
                      Inl e \<Rightarrow> Inl e
                    | Inr b \<Rightarrow> Inr (a \<le> b)))
      else if operator condition = ''>='' then
        (case py_float L context_value of
           Inl e \<Rightarrow> Inl e
         | Inr a \<Rightarrow> (case py_float L (cvalue condition) of
                      Inl e \<Rightarrow> Inl e
                    | Inr b \<Rightarrow> Inr (a \<ge> b)))
      else Inr False)"

section \<open>Python comparison and \<^verbatim>\<open>str.format\<close>\<close>

text \<open>\<^verbatim>\<open>a == b\<close> on JSON values: numbers (and booleans) compare by value, lists by
  position, dictionaries as mappings.\<close>

definition num_val :: "pyval \<Rightarrow> real option" where
  "num_val v =
     (case v of
        PBool b \<Rightarrow> Some (if b then 1 else 0)
      | PInt i \<Rightarrow> Some (of_int i)
      | PFloat r \<Rightarrow> Some r
      | _ \<Rightarrow> None)"

function (sequential) py_eq :: "pyval \<Rightarrow> pyval \<Rightarrow> bool" where
  "py_eq (PList xs) (PList ys) =
     (length xs = length ys \<and> list_all (\<lambda>(x, y). py_eq x y) (zip xs ys))"
| "py_eq (PDict a) (PDict b) =
     (set (map fst a) = set (map fst b)
      \<and> list_all (\<lambda>(k, v). case map_of b k of None \<Rightarrow> False | Some w \<Rightarrow> py_eq v w) a)"
| "py_eq a b =
     (case (num_val a, num_val b) of
        (Some x, Some y) \<Rightarrow> x = y
      | (None, None) \<Rightarrow> a = b
      | _ \<Rightarrow> False)"
  by pat_completeness auto
termination
proof (relation "measure (\<lambda>(a, b). size a)")
  show "wf (measure (\<lambda>(a, b). size a))" by simp
next
  fix xs ys :: "pyval list" and z :: "pyval \<times> pyval" and x y :: pyval
  assume "z \<in> set (zip xs ys)" and "(x, y) = z"
  then have "x \<in> set xs" by (metis set_zip_leftD)
  then have "size x < Suc (size_list size xs)"
    by (metis less_Suc_eq_le order_refl size_list_estimation')
  then show "((x, y), (PList xs, PList ys)) \<in> measure (\<lambda>(a, b). size a)" by simp
next
  fix a b :: "(string \<times> pyval) list" and z :: "string \<times> pyval" and k :: string
    and v w :: pyval
  assume "z \<in> set a" and "(k, v) = z"
  then have "(k, v) \<in> set a" by simp
  then have "size v < Suc (size_list (size_prod (\<lambda>_. 0) size) a)"
    by (induction a) auto
  then show "((v, w), (PDict a, PDict b)) \<in> measure (\<lambda>(a, b). size a)" by simp
qed

text \<open>
  \<^verbatim>\<open>template.format(**kw)\<close>. The text is read left to right: \<^verbatim>\<open>{{\<close> and \<^verbatim>\<open>}}\<close> stand for a
  brace, \<^verbatim>\<open>{name}\<close> for \<^verbatim>\<open>str(kw[name])\<close>. A lone closing brace, a field that is not closed and
  an opening brace inside a field name raise \<^verbatim>\<open>ValueError\<close>; a name that is not a keyword
  raises \<^verbatim>\<open>KeyError\<close>; an empty name or a number asks for a positional argument, there is
  none, and raises \<^verbatim>\<open>IndexError\<close>. From the first field that is more than a name on, the
  rendering is that of \<open>complex_format\<close>.
\<close>

definition is_special :: "char \<Rightarrow> bool" where
  "is_special c = (c \<in> set ''.[!:'')"

definition append_out :: "string \<Rightarrow> pyerr + string \<Rightarrow> pyerr + string" where
  "append_out x r = (case r of Inl e \<Rightarrow> Inl e | Inr out \<Rightarrow> Inr (x @ out))"

definition format_plain :: "pylib \<Rightarrow> jobj \<Rightarrow> string \<Rightarrow> pyerr + string" where
  "format_plain L kw name =
     (if list_all is_digit name then Inl IndexError
      else (case map_of kw name of None \<Rightarrow> Inl KeyError | Some v \<Rightarrow> Inr (py_str L v)))"

fun format_scan :: "pylib \<Rightarrow> jobj \<Rightarrow> string \<Rightarrow> pyerr + string"
  and format_field :: "pylib \<Rightarrow> jobj \<Rightarrow> string \<Rightarrow> string \<Rightarrow> string \<Rightarrow> pyerr + string" where
  "format_scan L kw [] = Inr []"
| "format_scan L kw (c # cs) =
     (if c = CHR ''{'' then
        (case cs of
           [] \<Rightarrow> Inl ValueError
         | d # rest \<Rightarrow>
             if d = CHR ''{'' then append_out ''{'' (format_scan L kw rest)
             else format_field L kw (c # cs) [] cs)
      else if c = CHR ''}'' then
        (case cs of
           [] \<Rightarrow> Inl ValueError
         | d # rest \<Rightarrow>
             if d = CHR ''}'' then append_out ''}'' (format_scan L kw rest)
             else Inl ValueError)
      else append_out [c] (format_scan L kw cs))"
| "format_field L kw whole acc [] = Inl ValueError"
| "format_field L kw whole acc (c # cs) =
     (if c = CHR ''}'' then
        (if list_ex is_special acc then complex_format L whole kw
         else (case format_plain L kw (rev acc) of
                 Inl e \<Rightarrow> Inl e
               | Inr out \<Rightarrow> append_out out (format_scan L kw cs)))
      else if c = CHR ''{'' then
        (if list_ex is_special acc then complex_format L whole kw else Inl ValueError)
      else format_field L kw whole (c # acc) cs)"

definition py_format :: "pylib \<Rightarrow> string \<Rightarrow> jobj \<Rightarrow> pyerr + string" where
  "py_format L tpl kw = format_scan L kw tpl"

section \<open>RuleEngine.\_generate\_actions\<close>

text \<open>
  \<^verbatim>\<open>
  def _generate_actions(self, actions, context):
      triggered_actions = []
      if context.get('patient_dnc', False):
          return triggered_actions
      for action in actions:
          try:
              if action.type == ActionType.SMS:
                  message = action.template.format(**context)
                  triggered_actions.append({'type': 'SMS', 'to': context.get('patient_phone'),
                                            'message': message})
              elif action.type == ActionType.EMAIL:
                  if isinstance(action.template, dict):
                      subject = action.template['subject'].format(**context)
                      body = action.template['body'].format(**context)
                  else:
                      subject = action.subject or "Appointment Reminder"
                      body = action.template.format(**context)
                  triggered_actions.append({'type': 'EMAIL', 'to': context.get('patient_email'),
                                            'subject': subject, 'body': body})
              elif action.type == ActionType.CALL:
                  script = action.template.format(**context)
                  triggered_actions.append({'type': 'CALL', 'to': context.get('patient_phone'),
                                            'script': script})
          except Exception:
              continue
      return triggered_actions
  \<close>
  \<open>render_action\<close> is the body of the \<^verbatim>\<open>try\<close>: the payloads it appends, none when it raises
  (a dictionary has no \<^verbatim>\<open>format\<close>, so a dictionary template of an SMS or a call raises).
\<close>

definition render_action :: "pylib \<Rightarrow> jobj \<Rightarrow> ParsedAction \<Rightarrow> jobj list" where
  "render_action L context action =
     (case atype action of
        SMS \<Rightarrow>
          (case template action of
             Inr d \<Rightarrow> []
           | Inl t \<Rightarrow>
               (case py_format L t context of
                  Inl e \<Rightarrow> []
                | Inr message \<Rightarrow>
                    [[(''type'', PStr ''SMS''), (''to'', dict_get context ''patient_phone''),
                      (''message'', PStr message)]]))
      | EMAIL \<Rightarrow>
          (case template action of
             Inr (subject_tpl, body_tpl) \<Rightarrow>
               (case py_format L subject_tpl context of
                  Inl e \<Rightarrow> []
                | Inr subj \<Rightarrow>
                    (case py_format L body_tpl context of
                       Inl e \<Rightarrow> []
                     | Inr body \<Rightarrow>
                         [[(''type'', PStr ''EMAIL''),
                           (''to'', dict_get context ''patient_email''),
                           (''subject'', PStr subj), (''body'', PStr body)]]))
           | Inl t \<Rightarrow>
               (case py_format L t context of
                  Inl e \<Rightarrow> []
                | Inr body \<Rightarrow>
                    [[(''type'', PStr ''EMAIL''),
                      (''to'', dict_get context ''patient_email''),
                      (''subject'', PStr (or_else (subject action) ''Appointment Reminder'')),
                      (''body'', PStr body)]]))
      | CALL \<Rightarrow>
          (case template action of
             Inr d \<Rightarrow> []
           | Inl t \<Rightarrow>
               (case py_format L t context of
                  Inl e \<Rightarrow> []
                | Inr script \<Rightarrow>
                    [[(''type'', PStr ''CALL''), (''to'', dict_get context ''patient_phone''),
                      (''script'', PStr script)]])))"

fun generate_actions_loop :: "pylib \<Rightarrow> jobj \<Rightarrow> ParsedAction list \<Rightarrow> jobj list \<Rightarrow> jobj list" where
  "generate_actions_loop L context [] triggered = triggered"
| "generate_actions_loop L context (action # rest) triggered =
     generate_actions_loop L context rest (triggered @ render_action L context action)"

definition generate_actions :: "pylib \<Rightarrow> ParsedAction list \<Rightarrow> jobj \<Rightarrow> jobj list" where
  "generate_actions L acts context =
     (if truthy (dict_get_default context ''patient_dnc'' (PBool False)) then []
      else generate_actions_loop L context acts [])"

section \<open>RuleEngine.\_build\_context\<close>

text \<open>
  The engine after \<^verbatim>\<open>load_data\<close>: four dictionaries keyed by record id (strings, in
  insertion order) and the list of events. Every record is a JSON object.
\<close>

record datasets =
  practices :: "(string \<times> jobj) list"
  patients :: "(string \<times> jobj) list"
  appointments :: "(string \<times> jobj) list"
  intakes :: "(string \<times> jobj) list"
  events :: "jobj list"

text \<open>\<^verbatim>\<open>d[k]\<close> raises \<^verbatim>\<open>KeyError\<close> on a missing key. \<^verbatim>\<open>table.get(v)\<close> hashes \<open>v\<close>: a list
  or a dictionary raises \<^verbatim>\<open>TypeError\<close>, and only a string can be equal to a key.\<close>

definition subscript :: "jobj \<Rightarrow> string \<Rightarrow> pyerr + pyval" where
  "subscript d k = (case map_of d k of None \<Rightarrow> Inl KeyError | Some v \<Rightarrow> Inr v)"

definition table_get :: "(string \<times> jobj) list \<Rightarrow> pyval \<Rightarrow> pyerr + jobj option" where
  "table_get tbl v =
     (case v of
        PStr s \<Rightarrow> Inr (map_of tbl s)
      | PList _ \<Rightarrow> Inl TypeError
      | PDict _ \<Rightarrow> Inl TypeError
      | _ \<Rightarrow> Inr None)"

text \<open>
  \<^verbatim>\<open>
  related_events = []
  for event in self.data_cache.get('events', []):
      payload = event.get('payload', {})
      if (payload.get('appointment_id') == appt_id or
              payload.get('patient_id') == appt.get('patient_id')):
          related_events.append(event)
  \<close>
  A payload that is no dictionary has no \<^verbatim>\<open>get\<close>: \<^verbatim>\<open>AttributeError\<close>.
\<close>

definition is_related :: "string \<Rightarrow> jobj \<Rightarrow> jobj \<Rightarrow> pyerr + bool" where
  "is_related appt_id appt event =
     (case dict_get_default event ''payload'' (PDict []) of
        PDict payload \<Rightarrow>
          Inr (py_eq (dict_get payload ''appointment_id'') (PStr appt_id)
               \<or> py_eq (dict_get payload ''patient_id'') (dict_get appt ''patient_id''))
      | _ \<Rightarrow> Inl AttributeError)"

fun related_events_loop :: "string \<Rightarrow> jobj \<Rightarrow> jobj list \<Rightarrow> jobj list \<Rightarrow> pyerr + jobj list" where
  "related_events_loop appt_id appt [] related = Inr related"
| "related_events_loop appt_id appt (event # rest) related =
     (case is_related appt_id appt event of
        Inl e \<Rightarrow> Inl e
      | Inr b \<Rightarrow>
          related_events_loop appt_id appt rest (if b then related @ [event] else related))"

text \<open>
  \<^verbatim>\<open>
  try:
      current_dt = datetime.fromisoformat(current_time.replace('Z', ''))
      appt_dt = datetime.fromisoformat(appt['start_time'])
      hours_until = max(0, (appt_dt - current_dt).total_seconds() / 3600)
  except:
      hours_until = 24
  \<close>
  Inside the \<^verbatim>\<open>try\<close>: a text that is no ISO timestamp, a missing \<^verbatim>\<open>start_time\<close>, one that
  is no string, and the difference of a naive and an aware datetime all raise.
  \<^verbatim>\<open>max(0, x)\<close> is \<open>x\<close> only when \<open>x\<close> is greater than the integer 0.
\<close>

definition dt_diff :: "pydatetime \<Rightarrow> pydatetime \<Rightarrow> real option" where
  "dt_diff a b =
     (case (a, b) of
        (Naive x, Naive y) \<Rightarrow> Some (x - y)
      | (Aware x, Aware y) \<Rightarrow> Some (x - y)
      | _ \<Rightarrow> None)"

definition max0 :: "real \<Rightarrow> pyval" where
  "max0 x = (if x > 0 then PFloat x else PInt 0)"

definition start_datetime :: "pylib \<Rightarrow> jobj \<Rightarrow> pydatetime option" where
  "start_datetime L appt =
     (case map_of appt ''start_time'' of
        Some (PStr s) \<Rightarrow> fromisoformat L s
      | _ \<Rightarrow> None)"

definition hours_until_of :: "pylib \<Rightarrow> string \<Rightarrow> jobj \<Rightarrow> pyval" where
  "hours_until_of L current_time appt =
     (case fromisoformat L (py_replace ''Z'' [] current_time) of
        None \<Rightarrow> PInt 24
      | Some current_dt \<Rightarrow>
          (case start_datetime L appt of
             None \<Rightarrow> PInt 24
           | Some appt_dt \<Rightarrow>
               (case dt_diff appt_dt current_dt of
                  None \<Rightarrow> PInt 24
                | Some seconds \<Rightarrow> max0 (seconds / 3600))))"

text \<open>
  \<^verbatim>\<open>
  try:
      appt_dt = datetime.fromisoformat(appt['start_time'])
      formatted_time = appt_dt.strftime("%b %d, %I:%M %p")
  except:
      formatted_time = "your appointment time"
  \<close>
\<close>

definition formatted_time_of :: "pylib \<Rightarrow> jobj \<Rightarrow> string" where
  "formatted_time_of L appt =
     (case start_datetime L appt of
        None \<Rightarrow> ''your appointment time''
      | Some appt_dt \<Rightarrow> strftime L appt_dt)"

text \<open>\<^verbatim>\<open>x.get(k) if x else d\<close> and \<^verbatim>\<open>x.get(k, d) if x else d\<close> for a record \<open>x\<close> that may be
  \<^verbatim>\<open>None\<close> (an empty dictionary is false as well).\<close>

definition get_if :: "jobj option \<Rightarrow> string \<Rightarrow> pyval \<Rightarrow> pyval" where
  "get_if x k d = (case x of None \<Rightarrow> d | Some r \<Rightarrow> if r = [] then d else dict_get r k)"

definition get_default_if :: "jobj option \<Rightarrow> string \<Rightarrow> pyval \<Rightarrow> pyval" where
  "get_default_if x k d =
     (case x of None \<Rightarrow> d | Some r \<Rightarrow> if r = [] then d else dict_get_default r k d)"

text \<open>\<^verbatim>\<open>patient.get('comm_prefs', {}).get(k, False) if patient else False\<close>\<close>

definition comm_pref :: "jobj option \<Rightarrow> string \<Rightarrow> pyerr + pyval" where
  "comm_pref patient k =
     (case patient of
        None \<Rightarrow> Inr (PBool False)
      | Some r \<Rightarrow>
          if r = [] then Inr (PBool False)
          else (case dict_get_default r ''comm_prefs'' (PDict []) of
                  PDict prefs \<Rightarrow> Inr (dict_get_default prefs k (PBool False))
                | _ \<Rightarrow> Inl AttributeError))"

definition recent_types :: "pyval list" where
  "recent_types = [PStr ''call.missed'', PStr ''intake.updated'', PStr ''appointment.updated'']"

text \<open>
  \<^verbatim>\<open>
  def _build_context(self, appt_id, current_time):
      appt = self.data_cache['appointments'].get(appt_id)
      if not appt:
          return None
      patient = self.data_cache['patients'].get(appt['patient_id'])
      practice = self.data_cache['practices'].get(appt['practice_id'])
      intake = self.data_cache['intakes'].get(appt_id, {'status': 'INCOMPLETE'})
      ... related_events, hours_until, formatted_time as above ...
      return {
          'appointment_id': appt_id,
          'patient_id': patient.get('id') if patient else None,
          'patient_first_name': patient.get('first_name') if patient else '',
          'patient_last_name': patient.get('last_name') if patient else '',
          'patient_phone': patient.get('phone') if patient else '',
          'patient_email': patient.get('email') if patient else '',
          'patient_language': patient.get('language') if patient else '',
          'patient_dnc': patient.get('dnc', False) if patient else False,
          'patient_comm_sms': patient.get('comm_prefs', {}).get('sms', False) if patient else False,
          'patient_comm_email': ... 'email' ..., 'patient_comm_call': ... 'call' ...,
          'practice_name': practice.get('name') if practice else '',
          'practice_timezone': practice.get('timezone') if practice else '',
          'practice_phone': practice.get('default_sender_phone') if practice else '',
          'practice_email': practice.get('reply_to_email') if practice else '',
          'practice_domain': practice.get('domain') if practice else '',
          'appointment_type': appt.get('type', ''),
          'appointment_status': appt.get('status', ''),
          'appointment_location': appt.get('location', ''),
          'appointment_start_time': appt.get('start_time', ''),
          'appointment_formatted_time': formatted_time,
          'no_show_risk': appt.get('no_show_risk', ''),
          'intake_status': intake.get('status', 'INCOMPLETE'),
          'intake_last_updated': intake.get('last_updated', ''),
          'intake_link': intake.get('link', ''),
          'hours_until': hours_until,
          'related_events': related_events,
          'recent_events': [e for e in related_events if e.get('type') in
                            ['call.missed', 'intake.updated', 'appointment.updated']]
      }
  \<close>
  \<open>context_dict\<close> is the dictionary of the \<^verbatim>\<open>return\<close>; \<open>build_context\<close> is the function, with
  the exceptions of each step.
\<close>

definition context_dict ::
  "string \<Rightarrow> jobj \<Rightarrow> jobj option \<Rightarrow> jobj option \<Rightarrow> jobj \<Rightarrow> jobj list \<Rightarrow> pyval \<Rightarrow> string
     \<Rightarrow> pyval \<Rightarrow> pyval \<Rightarrow> pyval \<Rightarrow> jobj" where
  "context_dict appt_id appt patient practice intake related_events hours_until formatted_time
       comm_sms comm_email comm_call =
     [(''appointment_id'', PStr appt_id),
      (''patient_id'', get_if patient ''id'' PNone),
      (''patient_first_name'', get_if patient ''first_name'' (PStr [])),
      (''patient_last_name'', get_if patient ''last_name'' (PStr [])),
      (''patient_phone'', get_if patient ''phone'' (PStr [])),
      (''patient_email'', get_if patient ''email'' (PStr [])),
      (''patient_language'', get_if patient ''language'' (PStr [])),
      (''patient_dnc'', get_default_if patient ''dnc'' (PBool False)),
      (''patient_comm_sms'', comm_sms),
      (''patient_comm_email'', comm_email),
      (''patient_comm_call'', comm_call),
      (''practice_name'', get_if practice ''name'' (PStr [])),
      (''practice_timezone'', get_if practice ''timezone'' (PStr [])),
      (''practice_phone'', get_if practice ''default_sender_phone'' (PStr [])),
      (''practice_email'', get_if practice ''reply_to_email'' (PStr [])),
      (''practice_domain'', get_if practice ''domain'' (PStr [])),
      (''appointment_type'', dict_get_default appt ''type'' (PStr [])),
      (''appointment_status'', dict_get_default appt ''status'' (PStr [])),
      (''appointment_location'', dict_get_default appt ''location'' (PStr [])),
      (''appointment_start_time'', dict_get_default appt ''start_time'' (PStr [])),
      (''appointment_formatted_time'', PStr formatted_time),
      (''no_show_risk'', dict_get_default appt ''no_show_risk'' (PStr [])),
      (''intake_status'', dict_get_default intake ''status'' (PStr ''INCOMPLETE'')),
      (''intake_last_updated'', dict_get_default intake ''last_updated'' (PStr [])),
      (''intake_link'', dict_get_default intake ''link'' (PStr [])),
      (''hours_until'', hours_until),
      (''related_events'', PList (map PDict related_events)),
      (''recent_events'',
         PList (map PDict (filter (\<lambda>e. list_ex (py_eq (dict_get e ''type'')) recent_types)
                                  related_events)))]"

definition build_context :: "pylib \<Rightarrow> datasets \<Rightarrow> string \<Rightarrow> string \<Rightarrow> pyerr + jobj option" where
  "build_context L db appt_id current_time =
     (case map_of (appointments db) appt_id of
        None \<Rightarrow> Inr None
      | Some appt \<Rightarrow>
          if appt = [] then Inr None
          else
          (case subscript appt ''patient_id'' of Inl e \<Rightarrow> Inl e | Inr pid \<Rightarrow>
          (case table_get (patients db) pid of Inl e \<Rightarrow> Inl e | Inr patient \<Rightarrow>
          (case subscript appt ''practice_id'' of Inl e \<Rightarrow> Inl e | Inr prid \<Rightarrow>
          (case table_get (practices db) prid of Inl e \<Rightarrow> Inl e | Inr practice \<Rightarrow>
          (case related_events_loop appt_id appt (events db) [] of Inl e \<Rightarrow> Inl e
           | Inr related_events \<Rightarrow>
          (case comm_pref patient ''sms'' of Inl e \<Rightarrow> Inl e | Inr comm_sms \<Rightarrow>
          (case comm_pref patient ''email'' of Inl e \<Rightarrow> Inl e | Inr comm_email \<Rightarrow>
          (case comm_pref patient ''call'' of Inl e \<Rightarrow> Inl e | Inr comm_call \<Rightarrow>
           Inr (Some
             (context_dict appt_id appt patient practice
                (case map_of (intakes db) appt_id of
                   None \<Rightarrow> [(''status'', PStr ''INCOMPLETE'')]
                 | Some i \<Rightarrow> i)
                related_events (hours_until_of L current_time appt)
                (formatted_time_of L appt) comm_sms comm_email comm_call)))))))))))"

section \<open>RuleEngine.\_evaluate\_appointment\<close>

text \<open>
  \<^verbatim>\<open>
  def _evaluate_appointment(self, appt_id, parsed_rule, current_time):
      context = self._build_context(appt_id, current_time)
      if not context:
          return None
      total_confidence = 0
      matched_conditions = 0
      for condition in parsed_rule['conditions']:
          if self._evaluate_condition(condition, context):
              total_confidence += condition.confidence
              matched_conditions += 1
      if matched_conditions == 0:
          return None
      confidence = (total_confidence / len(parsed_rule['conditions'])) \
                   * (matched_conditions / len(parsed_rule['conditions']))
      actions = self._generate_actions(parsed_rule['actions'], context)
      return RuleMatch(appointment_id=appt_id, patient_id=context['patient_id'],
                       confidence=confidence, triggered_actions=actions)
  \<close>
\<close>

fun conditions_loop ::
  "pylib \<Rightarrow> jobj \<Rightarrow> ParsedCondition list \<Rightarrow> real \<times> nat \<Rightarrow> pyerr + (real \<times> nat)" where
  "conditions_loop L context [] acc = Inr acc"
| "conditions_loop L context (condition # rest) acc =
     (case evaluate_condition L condition context of
        Inl e \<Rightarrow> Inl e
      | Inr b \<Rightarrow>
          conditions_loop L context rest
            (if b then (fst acc + confidence condition, snd acc + 1) else acc))"

definition evaluate_appointment ::
  "pylib \<Rightarrow> datasets \<Rightarrow> string \<Rightarrow> parsed_rule \<Rightarrow> string \<Rightarrow> pyerr + RuleMatch option" where
  "evaluate_appointment L db appt_id rule current_time =
     (case build_context L db appt_id current_time of
        Inl e \<Rightarrow> Inl e
      | Inr None \<Rightarrow> Inr None
      | Inr (Some context) \<Rightarrow>
          (case conditions_loop L context (conditions rule) (0, 0) of
             Inl e \<Rightarrow> Inl e
           | Inr (total_confidence, matched_conditions) \<Rightarrow>
               if matched_conditions = 0 then Inr None
               else
                 Inr (Some
                   \<lparr> appointment_id = appt_id,
                     patient_id = dict_get context ''patient_id'',
                     match_confidence =
                       (total_confidence / real (length (conditions rule)))
                       * (real matched_conditions / real (length (conditions rule))),
                     triggered_actions = generate_actions L (actions rule) context \<rparr>)))"

section \<open>RuleEngine.evaluate\_rule\<close>

text \<open>
  \<^verbatim>\<open>
  def evaluate_rule(self, rule_text, limit=10):
      cache_key = f"{rule_text}_{limit}"
      if cache_key in self.rule_cache:
          return self.rule_cache[cache_key]
      parsed_rule = self.parser.semantic_parse(rule_text)
      if not parsed_rule:
          return []
      matches = []
      current_time = "2025-09-10T12:00:00Z"
      all_appointment_ids = list(self.data_cache['appointments'].keys())
      with ThreadPoolExecutor(max_workers=4) as executor:
          futures = []
          for appt_id in all_appointment_ids:
              future = executor.submit(self._evaluate_appointment, appt_id, parsed_rule,
                                       current_time)
              futures.append(future)
          for future in futures:
              result = future.result()
              if result:
                  matches.append(result)
                  if len(matches) >= limit * 2:
                      break
      matches.sort(key=lambda x: x.confidence, reverse=True)
      self.rule_cache[cache_key] = matches[:limit]
      return matches[:limit]
  \<close>
  The workers only read the data sets, and the results are taken in the order of
  submission: the loop below evaluates the appointments in that order. \<^verbatim>\<open>future.result()\<close>
  raises what the worker raised; a result after the \<^verbatim>\<open>break\<close> is never looked at.
  \<^verbatim>\<open>sort(key, reverse=True)\<close> is stable: equal keys keep their order. \<^verbatim>\<open>xs[:n]\<close> drops the
  last \<open>-n\<close> elements when \<open>n\<close> is negative.
\<close>

record RuleEngine =
  data_cache :: datasets
  rule_cache :: "string \<Rightarrow> RuleMatch list option"

definition current_time_const :: string where
  "current_time_const = ''2025-09-10T12:00:00Z''"

fun collect_matches ::
  "pylib \<Rightarrow> datasets \<Rightarrow> parsed_rule \<Rightarrow> int \<Rightarrow> string list \<Rightarrow> RuleMatch list
     \<Rightarrow> pyerr + RuleMatch list" where
  "collect_matches L db rule limit [] matches = Inr matches"
| "collect_matches L db rule limit (appt_id # rest) matches =
     (case evaluate_appointment L db appt_id rule current_time_const of
        Inl e \<Rightarrow> Inl e
      | Inr None \<Rightarrow> collect_matches L db rule limit rest matches
      | Inr (Some result) \<Rightarrow>
          if int (length (matches @ [result])) \<ge> limit * 2 then Inr (matches @ [result])
          else collect_matches L db rule limit rest (matches @ [result]))"

definition sort_reverse :: "RuleMatch list \<Rightarrow> RuleMatch list" where
  "sort_reverse matches = sort_key (\<lambda>x. - match_confidence x) matches"

definition slice_to :: "int \<Rightarrow> 'a list \<Rightarrow> 'a list" where
  "slice_to n xs = (if n \<ge> 0 then take (nat n) xs else take (length xs - nat (- n)) xs)"

definition evaluate_rule ::
  "pylib \<Rightarrow> RuleEngine \<Rightarrow> string \<Rightarrow> int \<Rightarrow> pyerr + (RuleMatch list \<times> RuleEngine)" where
  "evaluate_rule L E rule_text limit =
     (let cache_key = rule_text @ ''_'' @ str_int limit in
      case rule_cache E cache_key of
        Some cached \<Rightarrow> Inr (cached, E)
      | None \<Rightarrow>
          (case semantic_parse rule_text of
             None \<Rightarrow> Inr ([], E)
           | Some rule \<Rightarrow>
               (case collect_matches L (data_cache E) rule limit
                       (map fst (appointments (data_cache E))) [] of
                  Inl e \<Rightarrow> Inl e
                | Inr matches \<Rightarrow>
                    Inr (slice_to limit (sort_reverse matches),
                         E\<lparr> rule_cache :=
                             (rule_cache E)(cache_key \<mapsto> slice_to limit (sort_reverse matches)) \<rparr>))))"

text \<open>The engine as \<^verbatim>\<open>__init__\<close> leaves it, and the states calls of \<^verbatim>\<open>evaluate_rule\<close> lead to.\<close>

definition new_engine :: "datasets \<Rightarrow> RuleEngine" where
  "new_engine db = \<lparr> data_cache = db, rule_cache = Map.empty \<rparr>"

inductive reachable :: "pylib \<Rightarrow> datasets \<Rightarrow> RuleEngine \<Rightarrow> bool" for L db where
  init: "reachable L db (new_engine db)"
| step: "reachable L db E \<Longrightarrow> evaluate_rule L E rule_text limit = Inr (r, E')
          \<Longrightarrow> reachable L db E'"

section \<open>syntax\_rules\_engine.py\<close>

subsection \<open>simple\_datetime\_diff\<close>

text \<open>
  \<^verbatim>\<open>
  def simple_datetime_diff(current_str, appt_str):
      """Calculate hours until appointment"""
      try:
          current_clean = current_str.replace('Z', '').split('+')[0].split('-')[0]
          if 'T' not in current_clean:
              return 24
          current_dt = datetime.fromisoformat(current_clean)
          if 'T' not in appt_str:
              return 24
          appt_dt = datetime.fromisoformat(appt_str)
          diff = appt_dt - current_dt
          return max(0, diff.total_seconds() / 3600)
      except Exception as e:
          return 24
  \<close>
  \<open>current_str\<close> is a string; \<open>appt_str\<close> is \<^verbatim>\<open>appt['start_time']\<close>, any JSON value: one that
  is no string ends in 24, by the test or by the exception \<^verbatim>\<open>fromisoformat\<close> raises.
\<close>

text \<open>\<^verbatim>\<open>s.split(sep)[0]\<close> for a separator of one character.\<close>

definition split_head :: "char \<Rightarrow> string \<Rightarrow> string" where
  "split_head sep s = takeWhile (\<lambda>c. c \<noteq> sep) s"

definition simple_datetime_diff :: "pylib \<Rightarrow> string \<Rightarrow> pyval \<Rightarrow> pyval" where
  "simple_datetime_diff L current_str appt_str =
     (let current_clean =
            split_head (CHR ''-'') (split_head (CHR ''+'') (py_replace ''Z'' [] current_str))
      in
      if \<not> py_in ''T'' current_clean then PInt 24
      else
        (case fromisoformat L current_clean of
           None \<Rightarrow> PInt 24
         | Some current_dt \<Rightarrow>
             (case appt_str of
                PStr s \<Rightarrow>
                  if \<not> py_in ''T'' s then PInt 24
                  else
                    (case fromisoformat L s of
                       None \<Rightarrow> PInt 24
                     | Some appt_dt \<Rightarrow>
                         (case dt_diff appt_dt current_dt of
                            None \<Rightarrow> PInt 24
                          | Some seconds \<Rightarrow> max0 (seconds / 3600)))
              | _ \<Rightarrow> PInt 24)))"

subsection \<open>evaluate\_rule\<close>

text \<open>
  \<^verbatim>\<open>
  def evaluate_rule(rule, context):
      conditions = rule.get('conditions', {})
      if not conditions:
          return True
      for condition_key, condition_value in conditions.items():
          context_value = context.get(condition_key)
          if context_value is None:
              return False
          if isinstance(condition_value, dict):
              for operator, value in condition_value.items():
                  if operator == "<=":
                      if not (isinstance(context_value, (int, float)) and context_value <= value):
                          return False
                  elif operator == ">=":
                      if not (isinstance(context_value, (int, float)) and context_value >= value):
                          return False
          else:
              if isinstance(context_value, str) and isinstance(condition_value, str):
                  if condition_value.lower() not in context_value.lower() \
                          and context_value.lower() != condition_value.lower():
                      return False
              elif context_value != condition_value:
                  return False
      return True
  \<close>
  The conditions are the dictionary \<^verbatim>\<open>extract_conditions\<close> builds: a field is bound to a
  string or to a dictionary from an operator to a number. Comparing a number with a value
  that is none raises \<^verbatim>\<open>TypeError\<close>.
\<close>

fun operators_hold :: "pyval \<Rightarrow> (string \<times> pyval) list \<Rightarrow> pyerr + bool" where
  "operators_hold context_value [] = Inr True"
| "operators_hold context_value ((op, v) # rest) =
     (if op = ''<='' \<or> op = ''>='' then
        (case num_val context_value of
           None \<Rightarrow> Inr False
         | Some a \<Rightarrow>
             (case num_val v of
                None \<Rightarrow> Inl TypeError
              | Some b \<Rightarrow>
                  if (if op = ''<='' then a \<le> b else a \<ge> b)
                  then operators_hold context_value rest
                  else Inr False))
      else operators_hold context_value rest)"

fun syntax_conditions_hold :: "jobj \<Rightarrow> (string \<times> pyval) list \<Rightarrow> pyerr + bool" where
  "syntax_conditions_hold context [] = Inr True"
| "syntax_conditions_hold context ((condition_key, condition_value) # rest) =
     (let context_value = dict_get context condition_key in
      if context_value = PNone then Inr False
      else
        (case condition_value of
           PDict ops \<Rightarrow>
             (case operators_hold context_value ops of
                Inl e \<Rightarrow> Inl e
              | Inr ok \<Rightarrow> if ok then syntax_conditions_hold context rest else Inr False)
         | _ \<Rightarrow>
             (case (context_value, condition_value) of
                (PStr cv, PStr cond) \<Rightarrow>
                  if \<not> py_in (py_lower cond) (py_lower cv) \<and> py_lower cv \<noteq> py_lower cond
                  then Inr False
                  else syntax_conditions_hold context rest
              | _ \<Rightarrow>
                  if \<not> py_eq context_value condition_value then Inr False
                  else syntax_conditions_hold context rest)))"

definition syntax_evaluate_rule :: "(string \<times> pyval) list \<Rightarrow> jobj \<Rightarrow> pyerr + bool" where
  "syntax_evaluate_rule rule_conditions context =
     (if rule_conditions = [] then Inr True
      else syntax_conditions_hold context rule_conditions)"

section \<open>floe\_rules\_engine/rules\_engine: utils.py and engine.py\<close>

subsection \<open>render\_template\<close>

text \<open>
  \<^verbatim>\<open>
  def render_template(tpl: str, data: dict) -> str:
      if not tpl:
          return ""
      out = tpl
      for k, v in data.items():
          out = out.replace("{{"+k+"}}", str(v))
      return out
  \<close>
  A template that is true and no string has no \<^verbatim>\<open>replace\<close>: \<^verbatim>\<open>AttributeError\<close>. Nothing
  looks for a placeholder that names no key of \<open>data\<close>: it stays in the text.
\<close>

fun replace_all :: "pylib \<Rightarrow> jobj \<Rightarrow> string \<Rightarrow> string" where
  "replace_all L [] out = out"
| "replace_all L ((k, v) # rest) out =
     replace_all L rest (py_replace (''{{'' @ k @ ''}}'') (py_str L v) out)"

definition render_template :: "pylib \<Rightarrow> pyval \<Rightarrow> jobj \<Rightarrow> pyerr + string" where
  "render_template L tpl data =
     (if \<not> truthy tpl then Inr []
      else (case tpl of
              PStr t \<Rightarrow> Inr (replace_all L data t)
            | _ \<Rightarrow> Inl AttributeError))"

subsection \<open>RulesEngine.render\_action\_messages\<close>

text \<open>
  The class \<^verbatim>\<open>Context\<close> of engine.py (its fields carry the prefix \<open>c_\<close> here) and a rule
  object: the list of its action names and the dictionary of its templates.
\<close>

record Context =
  c_practices :: "(string \<times> jobj) list"
  c_patients :: "(string \<times> jobj) list"
  c_appointments :: "(string \<times> jobj) list"
  c_intakes_by_appt :: "(string \<times> jobj) list"

record rule_object =
  r_actions :: "string list"
  r_templates :: jobj

text \<open>\<^verbatim>\<open>key in v\<close> and \<^verbatim>\<open>v[key]\<close> for a string key and a JSON value \<open>v\<close>.\<close>

definition key_in :: "string \<Rightarrow> pyval \<Rightarrow> pyerr + bool" where
  "key_in k v =
     (case v of
        PDict d \<Rightarrow> Inr (map_of d k \<noteq> None)
      | PList xs \<Rightarrow> Inr (PStr k \<in> set xs)
      | PStr s \<Rightarrow> Inr (py_in k s)
      | _ \<Rightarrow> Inl TypeError)"

definition index_key :: "pyval \<Rightarrow> string \<Rightarrow> pyerr + pyval" where
  "index_key v k =
     (case v of
        PDict d \<Rightarrow> subscript d k
      | _ \<Rightarrow> Inl TypeError)"

definition is_true :: "jobj option \<Rightarrow> bool" where
  "is_true x = (case x of None \<Rightarrow> False | Some r \<Rightarrow> r \<noteq> [])"

text \<open>
  \<^verbatim>\<open>
  appt = None
  if "appointment_id" in event.get("payload", {}):
      appt = ctx.appointments.get(event["payload"]["appointment_id"])
  patient = None
  if appt:
      patient = ctx.patients.get(appt["patient_id"])
  elif "patient_id" in event.get("payload", {}):
      patient = ctx.patients.get(event["payload"]["patient_id"])
  practice = None
  if appt:
      practice = ctx.practices.get(appt["practice_id"])
  elif "practice_id" in event.get("payload", {}):
      practice = ctx.practices.get(event["payload"]["practice_id"])
  \<close>
\<close>

definition lookup_in_payload ::
  "(string \<times> jobj) list \<Rightarrow> jobj \<Rightarrow> string \<Rightarrow> pyerr + jobj option" where
  "lookup_in_payload tbl event k =
     (let payload = dict_get_default event ''payload'' (PDict []) in
      case key_in k payload of
        Inl e \<Rightarrow> Inl e
      | Inr False \<Rightarrow> Inr None
      | Inr True \<Rightarrow>
          (case index_key payload k of
             Inl e \<Rightarrow> Inl e
           | Inr v \<Rightarrow> table_get tbl v))"

definition lookup_via ::
  "(string \<times> jobj) list \<Rightarrow> jobj option \<Rightarrow> jobj \<Rightarrow> string \<Rightarrow> pyerr + jobj option" where
  "lookup_via tbl appt event k =
     (case appt of
        Some a \<Rightarrow>
          if a \<noteq> [] then
            (case subscript a k of Inl e \<Rightarrow> Inl e | Inr v \<Rightarrow> table_get tbl v)
          else lookup_in_payload tbl event k
      | None \<Rightarrow> lookup_in_payload tbl event k)"

definition resolve ::
  "Context \<Rightarrow> jobj \<Rightarrow> pyerr + (jobj option \<times> jobj option \<times> jobj option)" where
  "resolve ctx event =
     (case lookup_in_payload (c_appointments ctx) event ''appointment_id'' of
        Inl e \<Rightarrow> Inl e
      | Inr appt \<Rightarrow>
          (case lookup_via (c_patients ctx) appt event ''patient_id'' of
             Inl e \<Rightarrow> Inl e
           | Inr patient \<Rightarrow>
               (case lookup_via (c_practices ctx) appt event ''practice_id'' of
                  Inl e \<Rightarrow> Inl e
                | Inr practice \<Rightarrow> Inr (appt, patient, practice))))"

text \<open>
  \<^verbatim>\<open>
  data = {
      "patient_name": f"{patient.get('first_name','')} {patient.get('last_name','')}"
                      if patient else "",
      "appointment_time": appointment_time or "",
      "practice_name": practice.get("name","") if practice else "",
      "practice_domain": practice.get("domain","") if practice else "",
      "reply_to_email": practice.get("reply_to_email","") if practice else "",
      "sender_phone": practice.get("default_sender_phone","") if practice else "",
      "intake_link": "",
  }
  if appt:
      intake = ctx.intakes_by_appt.get(appt["id"])
      if intake:
          data["intake_link"] = intake.get("link","")
  \<close>
  with \<^verbatim>\<open>appointment_time = appt.get("start_time")\<close> when there is an appointment.
\<close>

definition intake_link :: "Context \<Rightarrow> jobj option \<Rightarrow> pyerr + pyval" where
  "intake_link ctx appt =
     (if is_true appt then
        (case subscript (the appt) ''id'' of
           Inl e \<Rightarrow> Inl e
         | Inr v \<Rightarrow>
             (case table_get (c_intakes_by_appt ctx) v of
                Inl e \<Rightarrow> Inl e
              | Inr intake \<Rightarrow>
                  Inr (if is_true intake then dict_get_default (the intake) ''link'' (PStr [])
                       else PStr [])))
      else Inr (PStr []))"

definition template_data ::
  "pylib \<Rightarrow> jobj option \<Rightarrow> jobj option \<Rightarrow> jobj option \<Rightarrow> pyval \<Rightarrow> jobj" where
  "template_data L appt patient practice link =
     [(''patient_name'',
         if is_true patient
         then PStr (py_str L (dict_get_default (the patient) ''first_name'' (PStr [])) @ '' ''
                    @ py_str L (dict_get_default (the patient) ''last_name'' (PStr [])))
         else PStr []),
      (''appointment_time'',
         if is_true appt \<and> truthy (dict_get (the appt) ''start_time'')
         then dict_get (the appt) ''start_time'' else PStr []),
      (''practice_name'', get_default_if practice ''name'' (PStr [])),
      (''practice_domain'', get_default_if practice ''domain'' (PStr [])),
      (''reply_to_email'', get_default_if practice ''reply_to_email'' (PStr [])),
      (''sender_phone'', get_default_if practice ''default_sender_phone'' (PStr [])),
      (''intake_link'', link)]"

text \<open>
  \<^verbatim>\<open>
  for action in actions:
      tpl = templates.get(action)
      if action.upper() == "SMS":
          msg = render_template(tpl or "Hi {{patient_name}}", data)
          to = patient.get("phone","") if patient else ""
          out.append(f"Triggered SMS (arrow) To: {to}\nMessage: {msg}")
      elif action.upper() == "EMAIL":
          subj = ""
          body = ""
          if isinstance(tpl, dict):
              subj = render_template(tpl.get("subject",""), data)
              body = render_template(tpl.get("body",""), data)
          else:
              body = render_template(str(tpl or ""), data)
          to = patient.get("email","") if patient else ""
          out.append(f"Triggered Email (arrow) To: {to}\nSubject: {subj}\nBody: {body}")
      elif action.upper() == "CALL":
          script = render_template(tpl or "Call {{patient_name}} about their appointment.", data)
          to = patient.get("phone","") if patient else ""
          out.append(f"Triggered Call (arrow) To: {to}\nScript: {script}")
      else:
          out.append(f"UNKNOWN ACTION '{action}' (no-op)")
  return out
  \<close>
  The arrow of the source is the character U+25B6, three bytes in UTF-8.
\<close>

definition upper_str :: "string \<Rightarrow> string" where
  "upper_str s = map upper_char s"

definition arrow :: string where
  "arrow = [CHR 0xE2, CHR 0x96, CHR 0xB6]"

definition or_val :: "pyval \<Rightarrow> pyval \<Rightarrow> pyval" where
  "or_val a b = (if truthy a then a else b)"

definition render_one ::
  "pylib \<Rightarrow> jobj \<Rightarrow> jobj option \<Rightarrow> jobj \<Rightarrow> string \<Rightarrow> pyerr + string" where
  "render_one L templates patient data action =
     (let tpl = dict_get templates action in
      if upper_str action = ''SMS'' then
        (case render_template L (or_val tpl (PStr ''Hi {{patient_name}}'')) data of
           Inl e \<Rightarrow> Inl e
         | Inr msg \<Rightarrow>
             Inr (''Triggered SMS '' @ arrow @ '' To: ''
                  @ py_str L (get_default_if patient ''phone'' (PStr []))
                  @ nl @ ''Message: '' @ msg))
      else if upper_str action = ''EMAIL'' then
        (case (case tpl of
                 PDict d \<Rightarrow>
                   (case render_template L (dict_get_default d ''subject'' (PStr [])) data of
                      Inl e \<Rightarrow> Inl e
                    | Inr subj \<Rightarrow>
                        (case render_template L (dict_get_default d ''body'' (PStr [])) data of
                           Inl e \<Rightarrow> Inl e
                         | Inr body \<Rightarrow> Inr (subj, body)))
               | _ \<Rightarrow>
                   (case render_template L (PStr (py_str L (or_val tpl (PStr [])))) data of
                      Inl e \<Rightarrow> Inl e
                    | Inr body \<Rightarrow> Inr ([], body))) of
           Inl e \<Rightarrow> Inl e
         | Inr (subj, body) \<Rightarrow>
             Inr (''Triggered Email '' @ arrow @ '' To: ''
                  @ py_str L (get_default_if patient ''email'' (PStr []))
                  @ nl @ ''Subject: '' @ subj @ nl @ ''Body: '' @ body))
      else if upper_str action = ''CALL'' then
        (case render_template L
                (or_val tpl (PStr ''Call {{patient_name}} about their appointment.'')) data of
           Inl e \<Rightarrow> Inl e
         | Inr script \<Rightarrow>
             Inr (''Triggered Call '' @ arrow @ '' To: ''
                  @ py_str L (get_default_if patient ''phone'' (PStr []))
                  @ nl @ ''Script: '' @ script))
      else Inr (''UNKNOWN ACTION '' @ [CHR 0x27] @ action @ [CHR 0x27] @ '' (no-op)''))"

fun render_loop ::
  "pylib \<Rightarrow> jobj \<Rightarrow> jobj option \<Rightarrow> jobj \<Rightarrow> string list \<Rightarrow> string list
     \<Rightarrow> pyerr + string list" where
  "render_loop L templates patient data [] out = Inr out"
| "render_loop L templates patient data (action # rest) out =
     (case render_one L templates patient data action of
        Inl e \<Rightarrow> Inl e
      | Inr line \<Rightarrow> render_loop L templates patient data rest (out @ [line]))"

text \<open>
  \<^verbatim>\<open>
  def render_action_messages(self, rule, event, ctx):
      ... appt, patient, practice as above ...
      # Comm guardrails
      if patient and patient.get("dnc"):
          return [f"SKIPPED (DNC) for patient {patient['id']}"]
      actions = rule.get("actions", [])
      templates = rule.get("templates", {})
      ... data, the loop ...
  \<close>
\<close>

definition render_action_messages ::
  "pylib \<Rightarrow> rule_object \<Rightarrow> jobj \<Rightarrow> Context \<Rightarrow> pyerr + string list" where
  "render_action_messages L rule event ctx =
     (case resolve ctx event of
        Inl e \<Rightarrow> Inl e
      | Inr (appt, patient, practice) \<Rightarrow>
          if is_true patient \<and> truthy (dict_get (the patient) ''dnc'') then
            (case subscript (the patient) ''id'' of
               Inl e \<Rightarrow> Inl e
             | Inr pid \<Rightarrow> Inr [''SKIPPED (DNC) for patient '' @ py_str L pid])
          else
            (case intake_link ctx appt of
               Inl e \<Rightarrow> Inl e
             | Inr link \<Rightarrow>
                 render_loop L (r_templates rule) patient
                   (template_data L appt patient practice link) (r_actions rule) []))"

text \<open>A sample interpreter for concrete runs: only plain digit strings are numbers.\<close>

definition sample_float_of_str :: "string \<Rightarrow> real option" where
  "sample_float_of_str s =
     (if s \<noteq> [] \<and> list_all (\<lambda>c. 48 \<le> ord c \<and> ord c \<le> 57) s
      then Some (of_nat (foldl (\<lambda>n c. 10 * n + (ord c - 48)) 0 s))
      else None)"

definition sample_fromisoformat :: "string \<Rightarrow> pydatetime option" where
  "sample_fromisoformat s =
     (if s = ''2025-09-10T12:00:00'' then Some (Naive 0)
      else if s = ''2025-09-10T18:00:00'' then Some (Naive 21600)
      else if s = ''2025-09-09T12:00:00'' then Some (Naive (- 86400))
      else if s = ''2025-09-10T18:00:00+00:00'' then Some (Aware 21600)
      else None)"

definition sample_py :: pylib where
  "sample_py = \<lparr> float_of_str = sample_float_of_str,
                 repr_val = (\<lambda>v. ''<object>''),
                 fromisoformat = sample_fromisoformat,
                 strftime = (\<lambda>d. ''Sep 10, 06:00 PM''),
                 complex_format = (\<lambda>t kw. Inl ValueError) \<rparr>"

text \<open>A small data set, the rule of a sample text and the context of its second appointment.\<close>

definition sample_db :: datasets where
  "sample_db =
     \<lparr> practices = [(''pr1'', [(''id'', PStr ''pr1''), (''name'', PStr ''Clinic'')])],
       patients =
         [(''p1'', [(''id'', PStr ''p1''), (''first_name'', PStr ''Ann''),
                   (''phone'', PStr ''555''), (''dnc'', PBool True)]),
          (''p2'', [(''id'', PStr ''p2''), (''first_name'', PStr ''Bob''),
                   (''phone'', PStr ''556'')])],
       appointments =
         [(''a1'', [(''id'', PStr ''a1''), (''patient_id'', PStr ''p1''),
                   (''practice_id'', PStr ''pr1''),
                   (''start_time'', PStr ''2025-09-10T18:00:00''),
                   (''type'', PStr ''MRI''), (''no_show_risk'', PStr ''high'')]),
          (''a2'', [(''id'', PStr ''a2''), (''patient_id'', PStr ''p2''),
                   (''practice_id'', PStr ''pr1''),
                   (''start_time'', PStr ''2025-09-10T18:00:00''),
                   (''type'', PStr ''MRI''), (''no_show_risk'', PStr ''high'')])],
       intakes = [], events = [] \<rparr>"


definition sample_rule :: parsed_rule where
  "sample_rule =
     \<lparr> conditions = [\<lparr> ctype = RISK_LEVEL, field = ''no_show_risk'', operator = ''equals'',
                        cvalue = PStr ''high'', confidence = 0.9 \<rparr>],
       actions = [\<lparr> atype = CALL,
                    template = Inl ''Hi {patient_first_name}, this is {practice_name} calling about your {appointment_type} appointment.'',
                    custom_message = None, subject = None \<rparr>],
       original_text = ''if risk is high then call patient'',
       rule_confidence = 0.9 \<rparr>"


definition sample_unconditional_rule :: parsed_rule where
  "sample_unconditional_rule =
     \<lparr> conditions = [],
       actions = [\<lparr> atype = CALL,
                    template = Inl ''Hi {patient_first_name}, this is {practice_name} calling about your {appointment_type} appointment.'',
                    custom_message = None, subject = None \<rparr>],
       original_text = ''if always then call patient'',
       rule_confidence = 0.5 \<rparr>"


definition dnc_context :: jobj where
  "dnc_context =
     context_dict ''a1''
       [(''id'', PStr ''a1''), (''patient_id'', PStr ''p1''), (''practice_id'', PStr ''pr1''),
        (''start_time'', PStr ''2025-09-10T18:00:00''), (''type'', PStr ''MRI''),
        (''no_show_risk'', PStr ''high'')]
       (Some [(''id'', PStr ''p1''), (''first_name'', PStr ''Ann''), (''phone'', PStr ''555''),
              (''dnc'', PBool True)])
       (Some [(''id'', PStr ''pr1''), (''name'', PStr ''Clinic'')])
       [(''status'', PStr ''INCOMPLETE'')] [] (PFloat 6) ''Sep 10, 06:00 PM''
       (PBool False) (PBool False) (PBool False)"


text \<open>The same records as a \<open>Context\<close> of engine.py, an event for each appointment, and a
  rule object whose SMS template names a field that is no key of the template data.\<close>

definition sample_engine_context :: Context where
  "sample_engine_context =
     \<lparr> c_practices = practices sample_db, c_patients = patients sample_db,
       c_appointments = appointments sample_db, c_intakes_by_appt = intakes sample_db \<rparr>"

definition event_a1 :: jobj where
  "event_a1 = [(''type'', PStr ''appointment.updated''),
               (''payload'', PDict [(''appointment_id'', PStr ''a1'')])]"


definition sample_rule_object :: rule_object where
  "sample_rule_object =
     \<lparr> r_actions = [''SMS'', ''CALL''],
       r_templates = [(''SMS'', PStr ''Hi {{nickname}}'')] \<rparr>"




section \<open>Properties\<close>

lemma evaluate_condition_absent_field:
  "map_of context (field condition) = None \<Longrightarrow> evaluate_condition L condition context = Inr False"
  by (simp add: evaluate_condition_def dict_get_def)



subsection \<open>The condition loop and the conditions the parser builds\<close>










subsection \<open>The context \_build\_context returns\<close>


lemma context_dict_patient_id:
  "dict_get (context_dict a appt p pr i rel h f s e c) ''patient_id'' = get_if p ''id'' PNone"
  by (simp add: context_dict_def dict_get_def)

lemma context_dict_patient_dnc:
  "dict_get_default (context_dict a appt p pr i rel h f s e c) ''patient_dnc'' d
     = get_default_if p ''dnc'' (PBool False)"
  by (simp add: context_dict_def dict_get_default_def)












subsection \<open>Hours until the appointment\<close>

lemma hours_until_of_difference:
  assumes "fromisoformat L (py_replace ''Z'' [] current_time) = Some current_dt"
    and "start_datetime L appt = Some appt_dt"
    and "dt_diff appt_dt current_dt = Some seconds"
  shows "hours_until_of L current_time appt = max0 (seconds / 3600)"
  using assms by (simp add: hours_until_of_def)

lemma hours_until_of_fallback:
  assumes "fromisoformat L (py_replace ''Z'' [] current_time) = None
           \<or> start_datetime L appt = None"
  shows "hours_until_of L current_time appt = PInt 24"
  using assms by (auto simp: hours_until_of_def split: option.splits)

lemma hours_until_of_sample:
  "hours_until_of sample_py ''2025-09-10T12:00:00Z''
     [(''start_time'', PStr ''2025-09-10T18:00:00'')] = PFloat 6"
  by (simp add: hours_until_of_def start_datetime_def sample_py_def sample_fromisoformat_def
        dt_diff_def max0_def)

text \<open>
  Claim C6. The claim: \<open>hours_until\<close> is the difference of the appointment's start and the
  reference timestamp in hours, floored at 0, with 24 only when a timestamp cannot be
  parsed. \<^verbatim>\<open>RuleEngine._build_context\<close> computes that (the three lemmas above).
  \<^verbatim>\<open>simple_datetime_diff\<close> of syntax\_rules\_engine.py cuts the reference timestamp at its
  first hyphen, which leaves the year: with the reference timestamp the engine passes, the
  result is 24 for every appointment and every behaviour of \<^verbatim>\<open>fromisoformat\<close>, also for an
  appointment six hours later.
\<close>

theorem simple_datetime_diff_is_24:
  "simple_datetime_diff L ''2025-09-10T12:00:00Z'' appt_str = PInt 24"
  by (simp add: simple_datetime_diff_def split_head_def)

text \<open>
  Claim C9. The claim: the parser never returns a rule whose action list is empty.
  \<^verbatim>\<open>SemanticRuleParser.semantic_parse\<close> does, for a text whose action part names no channel;
  \<^verbatim>\<open>NLPRuleParser.parse_rule\<close> of syntax\_rules\_engine.py returns \<^verbatim>\<open>None\<close> there
  (\<^verbatim>\<open>if not actions: return None\<close>).
\<close>

theorem semantic_parse_returns_empty_actions:
  "semantic_parse ''If risk is high then notify patient'' =
     Some \<lparr> conditions = [\<lparr> ctype = RISK_LEVEL, field = ''no_show_risk'',
                              operator = ''equals'', cvalue = PStr ''high'',
                              confidence = 0.9 \<rparr>],
            actions = [],
            original_text = ''if risk is high then notify patient'',
            rule_confidence = 0.9 \<rparr>"
  by code_simp

subsection \<open>The cache key determines the rule text and the limit\<close>

lemma ord_digit_char: "d < 10 \<Longrightarrow> ord (digit_char d) = 48 + d"
  by (simp add: ord_def digit_char_def)

lemma digits_of_str_nat: "foldl (\<lambda>n c. 10 * n + (ord c - 48)) 0 (str_nat n) = n"
proof (induction n rule: str_nat.induct)
  case (1 n)
  show ?case
  proof (cases "n < 10")
    case True
    then show ?thesis by (subst str_nat.simps) (simp add: ord_digit_char)
  next
    case False
    with 1 have "foldl (\<lambda>n c. 10 * n + (ord c - 48)) 0 (str_nat (n div 10)) = n div 10"
      by simp
    with False show ?thesis
      by (subst str_nat.simps) (simp add: ord_digit_char)
  qed
qed

lemma str_nat_inj: "str_nat m = str_nat n \<Longrightarrow> m = n"
  by (metis digits_of_str_nat)

lemma str_nat_digits: "c \<in> set (str_nat n) \<Longrightarrow> is_digit c"
proof (induction n rule: str_nat.induct)
  case (1 n)
  show ?case
  proof (cases "n < 10")
    case True
    with 1(2) show ?thesis
      by (subst (asm) str_nat.simps) (simp add: is_digit_def ord_digit_char)
  next
    case False
    with 1 show ?thesis
      by (subst (asm) (2) str_nat.simps) (auto simp: is_digit_def ord_digit_char)
  qed
qed

lemma str_nat_nonempty: "str_nat n \<noteq> []"
  by (subst str_nat.simps) simp

lemma digit_not_underscore: "is_digit c \<Longrightarrow> c \<noteq> CHR ''_''"
  by (auto simp: is_digit_def ord_def)

lemma str_int_chars: "c \<in> set (str_int i) \<Longrightarrow> c \<noteq> CHR ''_''"
  using str_nat_digits digit_not_underscore
  by (auto simp: str_int_def split: if_splits)

lemma str_int_inj: "str_int i = str_int j \<Longrightarrow> i = j"
proof -
  assume eq: "str_int i = str_int j"
  have nodash: "\<And>n. hd (str_nat n) \<noteq> CHR ''-''"
  proof -
    fix n
    have "hd (str_nat n) \<in> set (str_nat n)" using str_nat_nonempty by simp
    then have "is_digit (hd (str_nat n))" by (rule str_nat_digits)
    then show "hd (str_nat n) \<noteq> CHR ''-''" by (auto simp: is_digit_def ord_def)
  qed
  show "i = j"
  proof (cases "i < 0")
    case True
    show ?thesis
    proof (cases "j < 0")
      case True
      with \<open>i < 0\<close> eq have "nat (- i) = nat (- j)"
        by (simp add: str_int_def str_nat_inj)
      with True \<open>i < 0\<close> show ?thesis by simp
    next
      case False
      with True eq have "CHR ''-'' # str_nat (nat (- i)) = str_nat (nat j)"
        by (simp add: str_int_def)
      then have "hd (str_nat (nat j)) = CHR ''-''" by (metis list.sel(1))
      with nodash show ?thesis by blast
    qed
  next
    case False
    show ?thesis
    proof (cases "j < 0")
      case True
      with False eq have "str_nat (nat i) = CHR ''-'' # str_nat (nat (- j))"
        by (simp add: str_int_def)
      then have "hd (str_nat (nat i)) = CHR ''-''" by (metis list.sel(1))
      with nodash show ?thesis by blast
    next
      case j: False
      with False eq have "nat i = nat j" by (simp add: str_int_def str_nat_inj)
      with False j show ?thesis by simp
    qed
  qed
qed

lemma split_at_last:
  assumes "t @ c # s = t' @ c # s'" and "c \<notin> set s" and "c \<notin> set s'"
  shows "t = t' \<and> s = s'"
proof -
  have tw: "takeWhile (\<lambda>x. x \<noteq> c) (xs @ c # ys) = xs" if "c \<notin> set xs" for xs ys
    using that by (induction xs) auto
  have "rev (t @ c # s) = rev (t' @ c # s')" using assms(1) by simp
  then have eq: "rev s @ c # rev t = rev s' @ c # rev t'" by simp
  have "rev s = takeWhile (\<lambda>x. x \<noteq> c) (rev s @ c # rev t)"
    using assms(2) by (simp add: tw)
  also have "\<dots> = takeWhile (\<lambda>x. x \<noteq> c) (rev s' @ c # rev t')" by (simp only: eq)
  also have "\<dots> = rev s'" using assms(3) by (simp add: tw)
  finally have "s = s'" by simp
  with assms(1) show ?thesis by simp
qed

lemma cache_key_inj:
  assumes "t @ ''_'' @ str_int i = t' @ ''_'' @ str_int j"
  shows "t = t' \<and> i = j"
proof -
  have "t = t' \<and> str_int i = str_int j"
    using assms str_int_chars by (intro split_at_last [where c = "CHR ''_''"]) auto
  then show ?thesis using str_int_inj by blast
qed

subsection \<open>What the cache of a reachable engine holds\<close>

lemma reachable_cache:
  assumes "reachable L db E"
  shows "data_cache E = db \<and>
         (\<forall>text limit r. rule_cache E (text @ ''_'' @ str_int limit) = Some r \<longrightarrow>
            (\<exists>rule matches. semantic_parse text = Some rule
               \<and> collect_matches L db rule limit (map fst (appointments db)) [] = Inr matches
               \<and> r = slice_to limit (sort_reverse matches)))"
  using assms
proof (induction rule: reachable.induct)
  case init
  show ?case by (simp add: new_engine_def)
next
  case (step E rule_text limit r E')
  note IH = step.IH
  let ?key = "rule_text @ ''_'' @ str_int limit"
  show ?case
  proof (cases "rule_cache E ?key")
    case (Some cached)
    with step.hyps(2) have "E' = E" by (simp add: evaluate_rule_def Let_def)
    with IH show ?thesis by simp
  next
    case None
    show ?thesis
    proof (cases "semantic_parse rule_text")
      case no: None
      with None step.hyps(2) have "E' = E" by (simp add: evaluate_rule_def Let_def)
      with IH show ?thesis by simp
    next
      case (Some rule)
      from IH have db: "data_cache E = db" by simp
      from None Some step.hyps(2) db obtain matches where
        coll: "collect_matches L db rule limit (map fst (appointments db)) [] = Inr matches"
        and upd: "E' = E\<lparr> rule_cache := (rule_cache E)(?key \<mapsto> slice_to limit (sort_reverse matches)) \<rparr>"
        by (auto simp: evaluate_rule_def Let_def split: sum.splits)
      show ?thesis
      proof (intro conjI allI impI)
        show "data_cache E' = db" using upd db by simp
      next
        fix rt lim r'
        assume hit: "rule_cache E' (rt @ ''_'' @ str_int lim) = Some r'"
        show "\<exists>rule matches. semantic_parse rt = Some rule
               \<and> collect_matches L db rule lim (map fst (appointments db)) [] = Inr matches
               \<and> r' = slice_to lim (sort_reverse matches)"
        proof (cases "rt @ ''_'' @ str_int lim = ?key")
          case True
          then have "rt = rule_text \<and> lim = limit" by (rule cache_key_inj)
          moreover from hit True upd have "r' = slice_to limit (sort_reverse matches)" by simp
          ultimately show ?thesis using Some coll by blast
        next
          case False
          with hit upd have "rule_cache E (rt @ ''_'' @ str_int lim) = Some r'" by simp
          with IH show ?thesis by blast
        qed
      qed
    qed
  qed
qed

subsection \<open>Texts without an if-then boundary\<close>

lemma iter_greedy_suffix:
  assumes "\<And>st st'. st' \<in> set (f st) \<Longrightarrow> suffix (fst st') (fst st)"
    and "st' \<in> set (iter_greedy f n st)"
  shows "suffix (fst st') (fst st)"
  using assms(2)
proof (induction n arbitrary: st)
  case 0
  then show ?case by simp
next
  case (Suc n)
  then obtain mid where mid: "mid \<in> set (f st)"
    and alt: "st' \<in> set (iter_greedy f n mid) \<or> st' = mid" by auto
  have step: "suffix (fst mid) (fst st)" by (rule assms(1) [OF mid])
  from alt show ?case
  proof
    assume "st' \<in> set (iter_greedy f n mid)"
    then have "suffix (fst st') (fst mid)" by (rule Suc.IH)
    from this step show ?thesis by (rule suffix_order.order_trans)
  next
    assume "st' = mid"
    with step show ?thesis by simp
  qed
qed

lemma iter_lazy_suffix:
  assumes "\<And>st st'. st' \<in> set (f st) \<Longrightarrow> suffix (fst st') (fst st)"
    and "st' \<in> set (iter_lazy f n st)"
  shows "suffix (fst st') (fst st)"
  using assms(2)
proof (induction n arbitrary: st)
  case 0
  then show ?case by simp
next
  case (Suc n)
  then obtain mid where mid: "mid \<in> set (f st)"
    and alt: "st' \<in> set (iter_lazy f n mid) \<or> st' = mid" by auto
  have step: "suffix (fst mid) (fst st)" by (rule assms(1) [OF mid])
  from alt show ?case
  proof
    assume "st' \<in> set (iter_lazy f n mid)"
    then have "suffix (fst st') (fst mid)" by (rule Suc.IH)
    from this step show ?thesis by (rule suffix_order.order_trans)
  next
    assume "st' = mid"
    with step show ?thesis by simp
  qed
qed

lemma rmatch_suffix:
  "st' \<in> set (rmatch r st) \<Longrightarrow> suffix (fst st') (fst st)"
proof (induction r arbitrary: st st')
  case Eps
  then show ?case by simp
next
  case (Atom k)
  then show ?case by (cases "fst st") (auto split: if_splits intro: suffix_ConsI)
next
  case (Str w)
  then show ?case by (auto split: if_splits simp: suffix_drop)
next
  case (Seq a b)
  then obtain mid where "mid \<in> set (rmatch a st)" "st' \<in> set (rmatch b mid)" by auto
  then have "suffix (fst st') (fst mid)" "suffix (fst mid) (fst st)"
    using Seq.IH by blast+
  then show ?case by (rule suffix_order.order_trans)
next
  case (Alt a b)
  from Alt.prems have "st' \<in> set (rmatch a st) \<or> st' \<in> set (rmatch b st)" by auto
  then show ?case using Alt.IH by blast
next
  case (Opt a)
  from Opt.prems have "st' \<in> set (rmatch a st) \<or> st' = st" by auto
  then show ?case using Opt.IH by blast
next
  case (Plus a)
  from Plus.prems have "st' \<in> set (iter_greedy (rmatch a) (Suc (length (fst st))) st)"
    by simp
  with Plus.IH show ?case by (rule iter_greedy_suffix)
next
  case (PlusLazy a)
  from PlusLazy.prems have "st' \<in> set (iter_lazy (rmatch a) (Suc (length (fst st))) st)"
    by simp
  with PlusLazy.IH show ?case by (rule iter_lazy_suffix)
next
  case (Group n a)
  from Group.prems obtain mid where "mid \<in> set (rmatch a st)" "fst st' = fst mid"
    by auto
  then show ?case using Group.IH by metis
qed

lemma rmatch_SeqD:
  "rmatch (Seq a b) st \<noteq> [] \<Longrightarrow> \<exists>mid\<in>set (rmatch a st). rmatch b mid \<noteq> []"
  by auto

lemma py_in_suffix:
  assumes "suffix u s" and "take (length w) u = w"
  shows "py_in w s"
  using assms
proof (induction s)
  case Nil
  then show ?case by auto
next
  case (Cons c cs)
  then show ?case by (auto simp: suffix_Cons)
qed

lemma re_search_SomeD:
  "re_search r s = Some caps \<Longrightarrow> \<exists>u. suffix u s \<and> rmatch r (u, []) \<noteq> []"
proof (induction s)
  case Nil
  then show ?case by (auto split: list.splits)
next
  case (Cons c cs)
  show ?case
  proof (cases "rmatch r (c # cs, [])")
    case Nil
    with Cons obtain u where "suffix u cs" "rmatch r (u, []) \<noteq> []" by auto
    then show ?thesis by (auto intro: suffix_ConsI)
  next
    case (Cons st sts)
    then have "rmatch r (c # cs, []) \<noteq> []" by simp
    then show ?thesis by blast
  qed
qed

lemma no_then_no_boundary:
  assumes "\<not> py_in ''then'' s"
  shows "re_search if_then_pattern s = None"
proof (rule ccontr)
  define R5 where "R5 = cat [Plus (Atom CSpace), Group 2 (Plus (Atom CAny))]"
  define R4 where "R4 = Seq (Str ''then'') R5"
  define R3 where "R3 = Seq (Plus (Atom CSpace)) R4"
  define R2 where "R2 = Seq (Group 1 (PlusLazy (Atom CAny))) R3"
  define R1 where "R1 = Seq (Plus (Atom CSpace)) R2"
  have pat: "if_then_pattern = Seq (Str ''if'') R1"
    by (simp add: if_then_pattern_def R1_def R2_def R3_def R4_def R5_def)
  assume "re_search if_then_pattern s \<noteq> None"
  then obtain caps where "re_search if_then_pattern s = Some caps" by auto
  then obtain u where u: "suffix u s" and m: "rmatch if_then_pattern (u, []) \<noteq> []"
    using re_search_SomeD by blast
  from m have "rmatch (Seq (Str ''if'') R1) (u, []) \<noteq> []" unfolding pat .
  from rmatch_SeqD [OF this] obtain s1 where
    s1: "s1 \<in> set (rmatch (Str ''if'') (u, []))" and m1: "rmatch R1 s1 \<noteq> []" by blast
  from m1 have "rmatch (Seq (Plus (Atom CSpace)) R2) s1 \<noteq> []" unfolding R1_def .
  from rmatch_SeqD [OF this] obtain s2 where
    s2: "s2 \<in> set (rmatch (Plus (Atom CSpace)) s1)" and m2: "rmatch R2 s2 \<noteq> []" by blast
  from m2 have "rmatch (Seq (Group 1 (PlusLazy (Atom CAny))) R3) s2 \<noteq> []" unfolding R2_def .
  from rmatch_SeqD [OF this] obtain s3 where
    s3: "s3 \<in> set (rmatch (Group 1 (PlusLazy (Atom CAny))) s2)"
    and m3: "rmatch R3 s3 \<noteq> []" by blast
  from m3 have "rmatch (Seq (Plus (Atom CSpace)) R4) s3 \<noteq> []" unfolding R3_def .
  from rmatch_SeqD [OF this] obtain s4 where
    s4: "s4 \<in> set (rmatch (Plus (Atom CSpace)) s3)" and m4: "rmatch R4 s4 \<noteq> []" by blast
  from m4 have "rmatch (Seq (Str ''then'') R5) s4 \<noteq> []" unfolding R4_def .
  from rmatch_SeqD [OF this] obtain s5 where
    "s5 \<in> set (rmatch (Str ''then'') s4)" by blast
  then have t: "take (length ''then'') (fst s4) = ''then''"
    by (simp split: if_splits)
  have "suffix (fst s1) u" using rmatch_suffix [OF s1] by simp
  moreover have "suffix (fst s2) (fst s1)" by (rule rmatch_suffix [OF s2])
  moreover have "suffix (fst s3) (fst s2)" by (rule rmatch_suffix [OF s3])
  moreover have "suffix (fst s4) (fst s3)" by (rule rmatch_suffix [OF s4])
  ultimately have "suffix (fst s4) s"
    using u by (meson suffix_order.order_trans)
  from py_in_suffix [OF this t] assms show False by simp
qed



subsection \<open>Collecting, sorting and truncating the matches\<close>







lemma returned_list:
  "map_sum id fst x = Inr r \<Longrightarrow> \<exists>E'. x = Inr (r, E')"
  by (cases x) auto



subsection \<open>Rules without conditions\<close>

lemma no_conditions_no_match:
  "conditions rule = [] \<Longrightarrow> evaluate_appointment L db appt_id rule t \<noteq> Inr (Some m)"
  by (auto simp: evaluate_appointment_def split: sum.splits option.splits)

lemma collect_no_conditions:
  assumes "conditions rule = []"
    and "collect_matches L db rule limit ids acc = Inr ms"
  shows "ms = acc"
  using assms(2)
proof (induction ids arbitrary: acc)
  case Nil
  then show ?case by simp
next
  case (Cons a ids)
  show ?case
  proof (cases "evaluate_appointment L db a rule current_time_const")
    case (Inl e)
    with Cons.prems show ?thesis by simp
  next
    case (Inr res)
    with no_conditions_no_match [OF assms(1)] have "res = None"
      by (cases res) auto
    with Inr Cons show ?thesis by simp
  qed
qed

lemma sample_unconditional_parse:
  "semantic_parse ''If always then call patient'' = Some sample_unconditional_rule"
  unfolding sample_unconditional_rule_def by code_simp

lemma sample_unconditional_evaluate:
  "map_sum id fst (evaluate_rule sample_py (new_engine sample_db)
                     ''If always then call patient'' 10) = Inr []"
  by code_simp

lemma syntax_evaluate_rule_no_conditions: "syntax_evaluate_rule [] context = Inr True"
  by (simp add: syntax_evaluate_rule_def)

text \<open>
  Claim C1. The claim: a rule that parses with no condition matches every appointment.
  \<^verbatim>\<open>evaluate_rule\<close> of syntax\_rules\_engine.py returns \<^verbatim>\<open>True\<close> for it (the lemma above).
  \<^verbatim>\<open>RuleEngine._evaluate_appointment\<close> counts no matched condition and returns \<^verbatim>\<open>None\<close> for
  every appointment, although \<^verbatim>\<open>semantic_parse\<close> gives such a rule the confidence 0.5: in
  every state the engine can reach, \<^verbatim>\<open>RuleEngine.evaluate_rule\<close> returns the empty list for
  a text that parses to a rule without conditions.
\<close>

theorem unconditional_rule_matches_nothing:
  assumes "reachable L db E"
    and "semantic_parse rule_text = Some rule"
    and "conditions rule = []"
    and "evaluate_rule L E rule_text limit = Inr (r, E')"
  shows "r = []"
proof (cases "rule_cache E (rule_text @ ''_'' @ str_int limit)")
  case (Some cached)
  with assms(4) have "r = cached" by (simp add: evaluate_rule_def Let_def)
  with reachable_cache [OF assms(1)] Some assms(2) obtain matches where
    coll: "collect_matches L db rule limit (map fst (appointments db)) [] = Inr matches"
    and r: "r = slice_to limit (sort_reverse matches)" by fastforce
  from collect_no_conditions [OF assms(3) coll] have "matches = []" .
  with r show ?thesis by (simp add: slice_to_def sort_reverse_def)
next
  case None
  from reachable_cache [OF assms(1)] have db: "data_cache E = db" by simp
  from None assms(2,4) db obtain matches where
    coll: "collect_matches L db rule limit (map fst (appointments db)) [] = Inr matches"
    and r: "r = slice_to limit (sort_reverse matches)"
    by (auto simp: evaluate_rule_def Let_def split: sum.splits)
  from collect_no_conditions [OF assms(3) coll] have "matches = []" .
  with r show ?thesis by (simp add: slice_to_def sort_reverse_def)
qed

theorem unconditional_rule_matches_nothing_witness:
  "reachable sample_py sample_db (new_engine sample_db)
   \<and> semantic_parse ''If always then call patient'' = Some sample_unconditional_rule
   \<and> conditions sample_unconditional_rule = []
   \<and> (\<exists>r E'. evaluate_rule sample_py (new_engine sample_db)
                ''If always then call patient'' 10 = Inr (r, E') \<and> r = [])"
proof -
  have r: "reachable sample_py sample_db (new_engine sample_db)" by (rule reachable.init)
  have c: "conditions sample_unconditional_rule = []"
    by (simp add: sample_unconditional_rule_def)
  from returned_list [OF sample_unconditional_evaluate] obtain E' where
    ev: "evaluate_rule sample_py (new_engine sample_db)
           ''If always then call patient'' 10 = Inr ([], E')" by blast
  from unconditional_rule_matches_nothing [OF r sample_unconditional_parse c ev]
    r sample_unconditional_parse c ev
  show ?thesis by blast
qed

subsection \<open>Patients flagged do-not-contact\<close>

lemma build_context_patient:
  assumes "build_context L db appt_id t = Inr (Some ctx)"
  shows "\<exists>appt pid patient.
           map_of (appointments db) appt_id = Some appt
           \<and> map_of appt ''patient_id'' = Some pid
           \<and> table_get (patients db) pid = Inr patient
           \<and> dict_get ctx ''patient_id'' = get_if patient ''id'' PNone
           \<and> dict_get_default ctx ''patient_dnc'' (PBool False)
               = get_default_if patient ''dnc'' (PBool False)"
  using assms
  by (auto simp: build_context_def subscript_def context_dict_patient_id
        context_dict_patient_dnc split: option.splits if_splits sum.splits)

lemma generate_actions_dnc:
  "truthy (dict_get_default context ''patient_dnc'' (PBool False))
     \<Longrightarrow> generate_actions L acts context = []"
  by (simp add: generate_actions_def)







subsection \<open>Rendering the actions\<close>












lemma sample_resolve_a1:
  "resolve sample_engine_context event_a1 =
     Inr (Some (snd (hd (appointments sample_db))), Some (snd (hd (patients sample_db))),
          Some (snd (hd (practices sample_db))))"
  by code_simp





text \<open>
  Claim C3, as amended. For a patient flagged do-not-contact no SMS, email or call is
  rendered, whatever the actions: \<^verbatim>\<open>RuleEngine._generate_actions\<close> returns the empty list,
  and \<^verbatim>\<open>RulesEngine.render_action_messages\<close> returns the single line
  \<^verbatim>\<open>SKIPPED (DNC) for patient <id>\<close>, which names the patient.
\<close>

theorem dnc_renders_no_payload:
  "(truthy (dict_get_default context ''patient_dnc'' (PBool False))
      \<longrightarrow> generate_actions L acts context = [])
   \<and> (resolve ctx event = Inr (appt, Some patient, practice)
        \<and> truthy (dict_get patient ''dnc'') \<and> map_of patient ''id'' = Some pid
      \<longrightarrow> render_action_messages L rule event ctx
            = Inr [''SKIPPED (DNC) for patient '' @ py_str L pid])"
proof (intro conjI impI)
  assume "truthy (dict_get_default context ''patient_dnc'' (PBool False))"
  then show "generate_actions L acts context = []" by (rule generate_actions_dnc)
next
  assume h: "resolve ctx event = Inr (appt, Some patient, practice)
        \<and> truthy (dict_get patient ''dnc'') \<and> map_of patient ''id'' = Some pid"
  then have "patient \<noteq> []" by auto
  with h show "render_action_messages L rule event ctx
            = Inr [''SKIPPED (DNC) for patient '' @ py_str L pid]"
    by (simp add: render_action_messages_def is_true_def subscript_def)
qed

theorem dnc_renders_no_payload_witness:
  "truthy (dict_get_default dnc_context ''patient_dnc'' (PBool False))
   \<and> generate_actions sample_py (actions sample_rule) dnc_context = []
   \<and> resolve sample_engine_context event_a1 =
       Inr (Some (snd (hd (appointments sample_db))), Some (snd (hd (patients sample_db))),
            Some (snd (hd (practices sample_db))))
   \<and> truthy (dict_get (snd (hd (patients sample_db))) ''dnc'')
   \<and> map_of (snd (hd (patients sample_db))) ''id'' = Some (PStr ''p1'')
   \<and> render_action_messages sample_py sample_rule_object event_a1 sample_engine_context
       = Inr [''SKIPPED (DNC) for patient p1'']"
proof -
  have t: "truthy (dict_get_default dnc_context ''patient_dnc'' (PBool False))"
    unfolding dnc_context_def context_dict_patient_dnc
    by (simp add: get_default_if_def dict_get_default_def truthy_def)
  have d: "truthy (dict_get (snd (hd (patients sample_db))) ''dnc'')
           \<and> map_of (snd (hd (patients sample_db))) ''id'' = Some (PStr ''p1'')"
    by (simp add: sample_db_def dict_get_def truthy_def)
  from dnc_renders_no_payload
         [of dnc_context sample_py "actions sample_rule" sample_engine_context event_a1
             "Some (snd (hd (appointments sample_db)))" "snd (hd (patients sample_db))"
             "Some (snd (hd (practices sample_db)))" "PStr ''p1''" sample_rule_object]
       t d sample_resolve_a1
  show ?thesis by (simp add: py_str_def)
qed

text \<open>
  Claim C3 as stated fails on \<^verbatim>\<open>render_action_messages\<close>: for a patient flagged
  do-not-contact the list it returns is not empty and holds the patient's id.
\<close>

theorem dnc_log_line_counterexample:
  "truthy (dict_get (snd (hd (patients sample_db))) ''dnc'')
   \<and> render_action_messages sample_py sample_rule_object event_a1 sample_engine_context
       = Inr [''SKIPPED (DNC) for patient p1'']
   \<and> render_action_messages sample_py sample_rule_object event_a1 sample_engine_context
       \<noteq> Inr []"
  by code_simp

end
